(* ===== verification/Prelude.thy ===== *)
theory Prelude
  imports Complex_Main "HOL-Library.Multiset"
begin

text \<open>
  Shared vocabulary of the development: the Rust panics that the Bevy systems of
  \<open>src/src/main.rs\<close> can raise, the result type \<open>panic + 'a\<close> that threads them, the
  simp collections the component theories fill, and the generic facts about square roots
  and lists that the component proofs share.
\<close>

named_theorems vec_simps "componentwise evaluation of the glam vector operations on Vec2 literals"

section \<open>Panics as values\<close>

text \<open>
  The three ways the systems of \<open>main.rs\<close> abort the process:
  \<^item> \<open>UnwrapNone\<close>: \<open>car.iter().next().unwrap()\<close> in \<open>obstacle_update_system\<close>
    when no entity has a \<open>Car\<close>;
  \<^item> \<open>NoEntities\<close>, \<open>MultipleEntities\<close>: the two \<open>QuerySingleError\<close>s of
    \<open>single_mut()\<close> in \<open>collision_update_system\<close>;
  \<^item> \<open>IndexOutOfBounds\<close>: \<open>text.sections[0]\<close> in \<open>text_update_system\<close> on a text
    without sections.
\<close>

datatype panic = UnwrapNone | NoEntities | MultipleEntities | IndexOutOfBounds

type_synonym 'a result = "panic + 'a"

definition bind_result :: "'a result \<Rightarrow> ('a \<Rightarrow> 'b result) \<Rightarrow> 'b result" where
  "bind_result r f = (case r of Inl e \<Rightarrow> Inl e | Inr a \<Rightarrow> f a)"

lemma bind_result_simps [simp]:
  "bind_result (Inl e) f = Inl e"
  "bind_result (Inr a) f = f a"
  by (simp_all add: bind_result_def)

lemma bind_result_eq_Inr:
  "bind_result r f = Inr b \<longleftrightarrow> (\<exists>a. r = Inr a \<and> f a = Inr b)"
  by (cases r) simp_all

section \<open>Square roots of sums of squares\<close>

text \<open>
  Vector lengths are square roots of sums of squares; comparisons against a constant
  reduce to comparisons of the squares, which \<open>simp\<close> decides on concrete numbers.
\<close>

lemma sqrt_self_mult [simp]: "0 \<le> (c::real) \<Longrightarrow> sqrt (c * c) = c"
  by (simp add: real_sqrt_mult_self)

lemma sqrt_less_const_iff:
  assumes "0 \<le> (c::real)"
  shows "sqrt x < c \<longleftrightarrow> x < c * c"
proof -
  have "sqrt x < c \<longleftrightarrow> sqrt x < sqrt (c * c)" using assms by simp
  also have "\<dots> \<longleftrightarrow> x < c * c" by (rule real_sqrt_less_iff)
  finally show ?thesis .
qed

lemma const_less_sqrt_iff:
  assumes "0 \<le> (c::real)"
  shows "c < sqrt x \<longleftrightarrow> c * c < x"
proof -
  have "c < sqrt x \<longleftrightarrow> sqrt (c * c) < sqrt x" using assms by simp
  also have "\<dots> \<longleftrightarrow> c * c < x" by (rule real_sqrt_less_iff)
  finally show ?thesis .
qed

lemma sum_squares_nonneg [simp]: "0 \<le> (a::real) * a + b * b"
  by (simp add: add_nonneg_nonneg)

end
