(* ===== verification/Glam.thy ===== *)
theory Glam
  imports Prelude
begin

text \<open>
  The glam and Bevy primitives that \<open>src/src/main.rs\<close> calls: \<open>Vec2\<close> with its
  arithmetic, \<open>length\<close>, \<open>normalize\<close>, \<open>distance\<close>, \<open>rotate\<close>, \<open>from_angle\<close>,
  \<open>to_angle\<close>; \<open>Vec3\<close>, \<open>Quat::from_rotation_z\<close>, \<open>Transform::from_xyz\<close>; and the
  image handles that \<open>AssetServer::load\<close> returns. Each is written as glam computes it,
  with \<open>f32\<close> idealised as \<open>real\<close>: no rounding, no NaN. The lemmas are the
  geometric facts the car model needs: rotation by a unit vector keeps the length,
  rescaling a normalised vector gives the requested length.
\<close>

section \<open>Vec2\<close>

datatype vec2 = Vec2 (vec2_x: real) (vec2_y: real)

definition add_vec2 :: "vec2 \<Rightarrow> vec2 \<Rightarrow> vec2" where
  "add_vec2 a b = Vec2 (vec2_x a + vec2_x b) (vec2_y a + vec2_y b)"

definition sub_vec2 :: "vec2 \<Rightarrow> vec2 \<Rightarrow> vec2" where
  "sub_vec2 a b = Vec2 (vec2_x a - vec2_x b) (vec2_y a - vec2_y b)"

text \<open>\<open>Vec2 * f32\<close> (glam's \<open>Mul<f32>\<close>).\<close>

definition scale_vec2 :: "vec2 \<Rightarrow> real \<Rightarrow> vec2" where
  "scale_vec2 v s = Vec2 (vec2_x v * s) (vec2_y v * s)"

definition dot :: "vec2 \<Rightarrow> vec2 \<Rightarrow> real" where
  "dot a b = vec2_x a * vec2_x b + vec2_y a * vec2_y b"

text \<open>glam: \<open>length(self) = self.dot(self).sqrt()\<close>.\<close>

definition length_vec2 :: "vec2 \<Rightarrow> real" where
  "length_vec2 v = sqrt (dot v v)"

text \<open>
  glam: \<open>normalize(self) = self.mul(self.length_recip())\<close> with
  \<open>length_recip = 1.0 / length\<close>. For the zero vector glam yields NaN components
  (and asserts in debug builds); HOL's \<open>1 / 0 = 0\<close> gives the zero vector instead.
  The model only calls it on vectors longer than the top speed.
\<close>

definition normalize_vec2 :: "vec2 \<Rightarrow> vec2" where
  "normalize_vec2 v = scale_vec2 v (1 / length_vec2 v)"

text \<open>glam: \<open>distance(self, rhs) = (self - rhs).length()\<close>.\<close>

definition distance :: "vec2 \<Rightarrow> vec2 \<Rightarrow> real" where
  "distance a b = length_vec2 (sub_vec2 a b)"

text \<open>glam: \<open>from_angle(angle) = Vec2 { x: cos angle, y: sin angle }\<close>.\<close>

definition from_angle :: "real \<Rightarrow> vec2" where
  "from_angle a = Vec2 (cos a) (sin a)"

text \<open>
  glam: \<open>rotate(self, rhs)\<close> is the complex product of \<open>self\<close> and \<open>rhs\<close>:
  \<open>x = self.x * rhs.x - self.y * rhs.y\<close>, \<open>y = self.y * rhs.x + self.x * rhs.y\<close>.
\<close>

definition rotate_vec2 :: "vec2 \<Rightarrow> vec2 \<Rightarrow> vec2" where
  "rotate_vec2 s r =
     Vec2 (vec2_x s * vec2_x r - vec2_y s * vec2_y r) (vec2_y s * vec2_x r + vec2_x s * vec2_y r)"

text \<open>
  \<open>f32::atan2(y, x)\<close> on the quadrants, as glam's \<open>to_angle(self) = atan2(self.y,
  self.x)\<close> calls it; signed zeros are not distinguished.
\<close>

definition atan2 :: "real \<Rightarrow> real \<Rightarrow> real" where
  "atan2 y x =
     (if 0 < x then arctan (y / x)
      else if x < 0 then (if 0 \<le> y then arctan (y / x) + pi else arctan (y / x) - pi)
      else if 0 < y then pi / 2
      else if y < 0 then - (pi / 2)
      else 0)"

definition to_angle :: "vec2 \<Rightarrow> real" where
  "to_angle v = atan2 (vec2_y v) (vec2_x v)"

section \<open>Vec3, Quat, Transform\<close>

record vec3 =
  vec3_x :: real
  vec3_y :: real
  vec3_z :: real

record quat =
  quat_x :: real
  quat_y :: real
  quat_z :: real
  quat_w :: real

text \<open>glam: \<open>Quat::IDENTITY = (0, 0, 0, 1)\<close>.\<close>

definition quat_identity :: quat where
  "quat_identity = \<lparr>quat_x = 0, quat_y = 0, quat_z = 0, quat_w = 1\<rparr>"

text \<open>
  glam: \<open>from_rotation_z(angle)\<close> computes \<open>(s, c) = sin_cos(angle * 0.5)\<close> and
  returns \<open>(0, 0, s, c)\<close>.
\<close>

definition from_rotation_z :: "real \<Rightarrow> quat" where
  "from_rotation_z a = \<lparr>quat_x = 0, quat_y = 0, quat_z = sin (a * (1 / 2)), quat_w = cos (a * (1 / 2))\<rparr>"

record transform =
  translation :: vec3
  rotation :: quat
  tscale :: vec3

text \<open>
  Bevy: \<open>Transform::from_xyz(x, y, z)\<close> is the identity transform moved to
  \<open>(x, y, z)\<close>: rotation \<open>Quat::IDENTITY\<close>, scale \<open>Vec3::ONE\<close>.
\<close>

definition from_xyz :: "real \<Rightarrow> real \<Rightarrow> real \<Rightarrow> transform" where
  "from_xyz x y z =
     \<lparr>translation = \<lparr>vec3_x = x, vec3_y = y, vec3_z = z\<rparr>, rotation = quat_identity,
      tscale = \<lparr>vec3_x = 1, vec3_y = 1, vec3_z = 1\<rparr>\<rparr>"

text \<open>\<open>from_xyz(x, y, z)\<close> followed by \<open>transform.scale = Vec3::new(s, s, s)\<close>.\<close>

definition scaled_at :: "real \<Rightarrow> real \<Rightarrow> real \<Rightarrow> real \<Rightarrow> transform" where
  "scaled_at x y z s = (from_xyz x y z)\<lparr>tscale := \<lparr>vec3_x = s, vec3_y = s, vec3_z = s\<rparr>\<rparr>"

section \<open>Image handles\<close>

text \<open>
  \<open>asset_server.load(path)\<close> returns the strong handle of the asset at \<open>path\<close>; the
  server deduplicates by path, so the handle is determined by the path.
\<close>

datatype image_handle = Handle string

definition load :: "string \<Rightarrow> image_handle" where
  "load path = Handle path"

section \<open>Geometry of the vector operations\<close>

lemma vec2_ops_Vec2 [vec_simps]:
  "add_vec2 (Vec2 a b) (Vec2 c d) = Vec2 (a + c) (b + d)"
  "sub_vec2 (Vec2 a b) (Vec2 c d) = Vec2 (a - c) (b - d)"
  "scale_vec2 (Vec2 a b) s = Vec2 (a * s) (b * s)"
  "rotate_vec2 (Vec2 a b) (Vec2 c d) = Vec2 (a * c - b * d) (b * c + a * d)"
  by (simp_all add: add_vec2_def sub_vec2_def scale_vec2_def rotate_vec2_def)

lemma length_vec2_Vec2 [vec_simps]: "length_vec2 (Vec2 a b) = sqrt (a * a + b * b)"
  by (simp add: length_vec2_def dot_def)

lemma length_vec2_nonneg [simp]: "0 \<le> length_vec2 v"
  by (simp add: length_vec2_def dot_def)

lemma dot_self_nonneg [simp]: "0 \<le> dot v v"
  by (simp add: dot_def)

lemma length_vec2_zero_iff: "length_vec2 v = 0 \<longleftrightarrow> v = Vec2 0 0"
  by (cases v) (simp add: length_vec2_def dot_def add_nonneg_eq_0_iff)

lemma length_scale_vec2: "length_vec2 (scale_vec2 v s) = \<bar>s\<bar> * length_vec2 v"
proof -
  have "dot (scale_vec2 v s) (scale_vec2 v s) = (s * s) * dot v v"
    by (simp add: scale_vec2_def dot_def algebra_simps)
  then show ?thesis by (simp add: length_vec2_def real_sqrt_mult)
qed

text \<open>The clamp branch of \<open>sprite_movement\<close>: \<open>normalize() * s\<close> has length \<open>|s|\<close>.\<close>

lemma length_scale_normalize:
  assumes "0 < length_vec2 v"
  shows "length_vec2 (scale_vec2 (normalize_vec2 v) s) = \<bar>s\<bar>"
  using assms by (simp add: normalize_vec2_def length_scale_vec2)

lemma length_rotate_vec2: "length_vec2 (rotate_vec2 u v) = length_vec2 u * length_vec2 v"
proof -
  have "dot (rotate_vec2 u v) (rotate_vec2 u v) = dot u u * dot v v"
    by (simp add: dot_def rotate_vec2_def algebra_simps)
  then show ?thesis by (simp add: length_vec2_def real_sqrt_mult)
qed

lemma length_from_angle [simp]: "length_vec2 (from_angle a) = 1"
  by (simp add: length_vec2_def dot_def from_angle_def flip: power2_eq_square)

lemma length_rotate_from_angle [simp]:
  "length_vec2 (rotate_vec2 u (from_angle a)) = length_vec2 u"
  by (simp add: length_rotate_vec2)

lemma rotate_from_angle_0 [simp]: "rotate_vec2 v (from_angle 0) = v"
  by (cases v) (simp add: rotate_vec2_def from_angle_def)

lemma distance_Vec2 [vec_simps]:
  "distance (Vec2 a b) (Vec2 c d) = sqrt ((a - c) * (a - c) + (b - d) * (b - d))"
  by (simp add: distance_def sub_vec2_def length_vec2_Vec2)

lemma distance_less_iff:
  "0 \<le> r \<Longrightarrow> distance p q < r \<longleftrightarrow>
     (vec2_x p - vec2_x q) * (vec2_x p - vec2_x q) + (vec2_y p - vec2_y q) * (vec2_y p - vec2_y q) < r * r"
  by (cases p, cases q) (simp add: distance_Vec2 sqrt_less_const_iff)

text \<open>A distance is at least the gap between the \<open>x\<close> coordinates.\<close>

lemma distance_ge_x_gap: "\<bar>vec2_x p - vec2_x q\<bar> \<le> distance p q"
proof -
  have "\<bar>vec2_x p - vec2_x q\<bar> = sqrt ((vec2_x p - vec2_x q) * (vec2_x p - vec2_x q))"
    by (simp add: real_sqrt_mult_self)
  also have "\<dots> \<le> sqrt ((vec2_x p - vec2_x q) * (vec2_x p - vec2_x q)
                       + (vec2_y p - vec2_y q) * (vec2_y p - vec2_y q))"
    by (rule real_sqrt_le_mono) simp
  also have "\<dots> = distance p q"
    by (cases p, cases q) (simp add: distance_Vec2)
  finally show ?thesis .
qed

lemma length_vec2_cmod: "length_vec2 v = cmod (Complex (vec2_x v) (vec2_y v))"
  by (cases v) (simp add: length_vec2_Vec2 cmod_def power2_eq_square)

lemma length_add_vec2_le: "length_vec2 (add_vec2 u v) \<le> length_vec2 u + length_vec2 v"
proof -
  have "Complex (vec2_x (add_vec2 u v)) (vec2_y (add_vec2 u v)) =
        Complex (vec2_x u) (vec2_y u) + Complex (vec2_x v) (vec2_y v)"
    by (simp add: add_vec2_def complex_eq_iff)
  then show ?thesis by (simp add: length_vec2_cmod norm_triangle_ineq)
qed

lemma abs_x_le_length_vec2: "\<bar>vec2_x v\<bar> \<le> length_vec2 v"
proof -
  have "\<bar>Re (Complex (vec2_x v) (vec2_y v))\<bar> \<le> cmod (Complex (vec2_x v) (vec2_y v))"
    by (rule abs_Re_le_cmod)
  then show ?thesis by (simp add: length_vec2_cmod)
qed

lemma to_angle_up: "to_angle (Vec2 0 1) = pi / 2"
  by (simp add: to_angle_def atan2_def)

lemma from_rotation_z_0: "from_rotation_z 0 = quat_identity"
  by (simp add: from_rotation_z_def quat_identity_def)

end
