(* ===== verification/Car.thy ===== *)
theory Car
  imports Glam
begin

text \<open>
  The car of \<open>src/src/main.rs\<close>: the \<open>Car\<close> component (lines 27--34), the
  entity that carries it with its \<open>Transform\<close> and \<open>Handle<Image>\<close>, and the system
  \<open>sprite_movement\<close> (lines 132--181), split as the code is laid out: steering
  (\<open>steer\<close>), velocity integration with the speed clamp (\<open>accelerate\<close>), position
  integration (\<open>move_car\<close>) and the write-back to the sprite (\<open>sync_sprite\<close>).
  The lemmas give each branch's behaviour and the invariant the system keeps: the facing
  direction stays a unit vector and the speed never exceeds \<open>top_speed\<close>.
\<close>

section \<open>Data\<close>

text \<open>The keys the game reads; every other key is \<open>OtherKey\<close>.\<close>

datatype keycode = KeyA | KeyD | OtherKey nat

record car =
  pos :: vec2
  vel :: vec2
  direction :: vec2
  base_acc :: real
  top_speed :: real

text \<open>The entity spawned in \<open>setup\<close>: \<open>SpriteBundle\<close> (transform, texture) and \<open>Car\<close>.\<close>

record car_entity =
  car_comp :: car
  car_transform :: transform
  car_texture :: image_handle

section \<open>sprite_movement\<close>

text \<open>
  Lines 141--156: key A turns left by \<open>0.001 * |vel|\<close> radians, else key D turns right
  by as much; the texture follows the branch. Key A wins when both are held.
\<close>

definition steer :: "keycode set \<Rightarrow> car \<Rightarrow> car \<times> image_handle" where
  "steer keys c =
     (if KeyA \<in> keys then
        (c\<lparr>direction := rotate_vec2 (direction c) (from_angle (0.001 * length_vec2 (vel c)))\<rparr>,
         load ''racecar_left.png'')
      else if KeyD \<in> keys then
        (c\<lparr>direction := rotate_vec2 (direction c) (from_angle (- 0.001 * length_vec2 (vel c)))\<rparr>,
         load ''racecar_right.png'')
      else (c, load ''racecar_center.png''))"

text \<open>
  Lines 158--164: \<open>vel += direction * base_acc\<close>, then, if \<open>|vel| > top_speed\<close>,
  \<open>vel = vel.normalize() * top_speed\<close>. No \<open>delta_seconds\<close> scaling: one step per frame.
\<close>

definition clamp_speed :: "real \<Rightarrow> vec2 \<Rightarrow> vec2" where
  "clamp_speed cap v = (if cap < length_vec2 v then scale_vec2 (normalize_vec2 v) cap else v)"

definition accelerate :: "car \<Rightarrow> car" where
  "accelerate c =
     c\<lparr>vel := clamp_speed (top_speed c) (add_vec2 (vel c) (scale_vec2 (direction c) (base_acc c)))\<rparr>"

text \<open>Line 166: \<open>pos = pos + vel\<close>.\<close>

definition move_car :: "car \<Rightarrow> car" where
  "move_car c = c\<lparr>pos := add_vec2 (pos c) (vel c)\<rparr>"

text \<open>
  Lines 169--173: the sprite sits at screen height \<open>-200\<close> and world \<open>x\<close>, turned to
  the facing direction less a quarter turn.
\<close>

definition sync_sprite :: "car \<Rightarrow> transform \<Rightarrow> transform" where
  "sync_sprite c t =
     t\<lparr>translation := (translation t)\<lparr>vec3_y := -200, vec3_x := vec2_x (pos c)\<rparr>,
       rotation := from_rotation_z (to_angle (direction c) - pi / 2)\<rparr>"

text \<open>The car's logical state after one frame of \<open>sprite_movement\<close>.\<close>

definition car_step :: "keycode set \<Rightarrow> car \<Rightarrow> car" where
  "car_step keys c = move_car (accelerate (fst (steer keys c)))"

text \<open>The body of the loop over \<open>(car, transform, texture)\<close>, lines 139--180.\<close>

definition sprite_movement_entity :: "keycode set \<Rightarrow> car_entity \<Rightarrow> car_entity" where
  "sprite_movement_entity keys e =
     (let c' = car_step keys (car_comp e)
      in \<lparr>car_comp = c', car_transform = sync_sprite c' (car_transform e),
          car_texture = snd (steer keys (car_comp e))\<rparr>)"

text \<open>
  The system runs the body for every entity of the query; with no car it does nothing,
  and it never panics. \<open>_time\<close>, \<open>q_window\<close> are unused.
\<close>

definition sprite_movement :: "keycode set \<Rightarrow> car_entity list \<Rightarrow> car_entity list" where
  "sprite_movement keys es = map (sprite_movement_entity keys) es"

text \<open>The \<open>Car\<close> that \<open>setup\<close> spawns, lines 99--105.\<close>

definition setup_car :: car where
  "setup_car = \<lparr>pos = Vec2 100 0, vel = Vec2 0 0, direction = Vec2 0 1, base_acc = 1, top_speed = 40\<rparr>"

text \<open>
  What the system keeps true of a car: its facing direction is a unit vector and its
  speed is at most its (non-negative) top speed.
\<close>

definition car_inv :: "car \<Rightarrow> bool" where
  "car_inv c \<longleftrightarrow> length_vec2 (direction c) = 1 \<and> 0 \<le> top_speed c \<and> length_vec2 (vel c) \<le> top_speed c"

section \<open>Facts used by the properties\<close>

lemma steer_fields [simp]:
  "pos (fst (steer keys c)) = pos c"
  "vel (fst (steer keys c)) = vel c"
  "base_acc (fst (steer keys c)) = base_acc c"
  "top_speed (fst (steer keys c)) = top_speed c"
  by (simp_all add: steer_def)

lemma car_step_consts [simp]:
  "base_acc (car_step keys c) = base_acc c"
  "top_speed (car_step keys c) = top_speed c"
  by (simp_all add: car_step_def move_car_def accelerate_def)

lemma car_step_direction:
  "direction (car_step keys c) = direction (fst (steer keys c))"
  by (simp add: car_step_def move_car_def accelerate_def)

lemma car_step_vel:
  "vel (car_step keys c) =
     clamp_speed (top_speed c) (add_vec2 (vel c) (scale_vec2 (direction (fst (steer keys c))) (base_acc c)))"
  by (simp add: car_step_def move_car_def accelerate_def)

lemma car_step_pos:
  "pos (car_step keys c) = add_vec2 (pos c) (vel (car_step keys c))"
  by (simp add: car_step_def move_car_def accelerate_def)

lemma length_clamp_speed_le:
  assumes "0 \<le> cap"
  shows "length_vec2 (clamp_speed cap v) \<le> cap"
proof (cases "cap < length_vec2 v")
  case True
  then have "0 < length_vec2 v" using assms by linarith
  then show ?thesis using True assms by (simp add: clamp_speed_def length_scale_normalize)
next
  case False
  then show ?thesis by (simp add: clamp_speed_def)
qed

lemma clamp_speed_engaged:
  assumes "0 \<le> cap" and "cap < length_vec2 v"
  shows "length_vec2 (clamp_speed cap v) = cap"
proof -
  have "0 < length_vec2 v" using assms by linarith
  then show ?thesis using assms by (simp add: clamp_speed_def length_scale_normalize)
qed

lemma clamp_speed_idle: "length_vec2 v \<le> cap \<Longrightarrow> clamp_speed cap v = v"
  by (simp add: clamp_speed_def)

lemma rotate_from_angle_add:
  "rotate_vec2 (from_angle a) (from_angle b) = from_angle (a + b)"
  by (simp add: rotate_vec2_def from_angle_def cos_add sin_add algebra_simps)

lemma steer_direction_cases:
  "direction (fst (steer keys c)) =
     (if KeyA \<in> keys then rotate_vec2 (direction c) (from_angle (0.001 * length_vec2 (vel c)))
      else if KeyD \<in> keys then rotate_vec2 (direction c) (from_angle (- 0.001 * length_vec2 (vel c)))
      else direction c)"
  by (simp add: steer_def)

lemma car_step_unit_direction_step:
  "length_vec2 (direction c) = 1 \<Longrightarrow> length_vec2 (direction (car_step keys c)) = 1"
  by (simp add: car_step_direction steer_direction_cases)

lemma car_step_speed_le:
  "0 \<le> top_speed c \<Longrightarrow> length_vec2 (vel (car_step keys c)) \<le> top_speed c"
  by (simp add: car_step_vel length_clamp_speed_le)

lemma car_inv_setup_car: "car_inv setup_car"
  by (simp add: car_inv_def setup_car_def length_vec2_Vec2)

lemma car_inv_car_step: "car_inv c \<Longrightarrow> car_inv (car_step keys c)"
  by (simp add: car_inv_def car_step_unit_direction_step car_step_speed_le)

lemma length_clamp_speed_le_length: "0 \<le> cap \<Longrightarrow> length_vec2 (clamp_speed cap v) \<le> length_vec2 v"
  by (cases "cap < length_vec2 v") (simp_all add: clamp_speed_def normalize_vec2_def length_scale_vec2)

lemma car_step_speed_growth:
  assumes "car_inv c"
  shows "length_vec2 (vel (car_step keys c)) \<le> length_vec2 (vel c) + \<bar>base_acc c\<bar>"
proof -
  let ?d = "direction (fst (steer keys c))"
  have d: "length_vec2 ?d = 1"
    using assms by (simp add: car_inv_def steer_direction_cases)
  have "length_vec2 (vel (car_step keys c)) \<le> length_vec2 (add_vec2 (vel c) (scale_vec2 ?d (base_acc c)))"
    using assms by (simp add: car_step_vel car_inv_def length_clamp_speed_le_length)
  also have "\<dots> \<le> length_vec2 (vel c) + length_vec2 (scale_vec2 ?d (base_acc c))"
    by (rule length_add_vec2_le)
  also have "\<dots> = length_vec2 (vel c) + \<bar>base_acc c\<bar>"
    using d by (simp add: length_scale_vec2)
  finally show ?thesis .
qed

lemma car_step_x_drift:
  "\<bar>vec2_x (pos (car_step keys c)) - vec2_x (pos c)\<bar> \<le> length_vec2 (vel (car_step keys c))"
  using abs_x_le_length_vec2 [of "vel (car_step keys c)"]
  by (simp add: car_step_pos [of keys c] add_vec2_def)

section \<open>Properties of sprite_movement\<close>

text \<open>
  C3 (bounds): after the velocity update of \<open>sprite_movement\<close> the car's speed is at
  most \<open>top_speed\<close>, whatever the keys and the speed before, as long as \<open>top_speed\<close>
  is not negative.
\<close>

theorem car_step_speed_bounded:
  assumes "0 \<le> top_speed c"
  shows "length_vec2 (vel (car_step keys c)) \<le> top_speed c"
  using assms by (rule car_step_speed_le)

theorem car_step_speed_bounded_witness:
  "0 \<le> top_speed (setup_car\<lparr>vel := Vec2 0 40\<rparr>) \<and>
   length_vec2 (vel (car_step {} (setup_car\<lparr>vel := Vec2 0 40\<rparr>))) \<le> top_speed (setup_car\<lparr>vel := Vec2 0 40\<rparr>)"
  using car_step_speed_bounded [of "setup_car\<lparr>vel := Vec2 0 40\<rparr>" "{}"]
  by (simp add: setup_car_def)

text \<open>
  C13 (functional): when the accelerated velocity is longer than \<open>top_speed\<close>, the
  clamp engages and the new speed is exactly \<open>top_speed\<close>.
\<close>

theorem car_step_clamp_exact:
  assumes "0 \<le> top_speed c"
    and "top_speed c < length_vec2 (add_vec2 (vel c) (scale_vec2 (direction (fst (steer keys c))) (base_acc c)))"
  shows "length_vec2 (vel (car_step keys c)) = top_speed c"
  using assms by (simp add: car_step_vel clamp_speed_engaged)

theorem car_step_clamp_exact_witness:
  "0 \<le> top_speed (setup_car\<lparr>vel := Vec2 0 40\<rparr>) \<and>
   top_speed (setup_car\<lparr>vel := Vec2 0 40\<rparr>) <
     length_vec2 (add_vec2 (vel (setup_car\<lparr>vel := Vec2 0 40\<rparr>))
       (scale_vec2 (direction (fst (steer {} (setup_car\<lparr>vel := Vec2 0 40\<rparr>))))
          (base_acc (setup_car\<lparr>vel := Vec2 0 40\<rparr>)))) \<and>
   length_vec2 (vel (car_step {} (setup_car\<lparr>vel := Vec2 0 40\<rparr>))) = 40"
proof -
  have h1: "0 \<le> top_speed (setup_car\<lparr>vel := Vec2 0 40\<rparr>)" by (simp add: setup_car_def)
  have h2: "top_speed (setup_car\<lparr>vel := Vec2 0 40\<rparr>) <
     length_vec2 (add_vec2 (vel (setup_car\<lparr>vel := Vec2 0 40\<rparr>))
       (scale_vec2 (direction (fst (steer {} (setup_car\<lparr>vel := Vec2 0 40\<rparr>))))
          (base_acc (setup_car\<lparr>vel := Vec2 0 40\<rparr>))))"
    by (simp add: setup_car_def steer_def vec_simps)
  show ?thesis using h1 h2 car_step_clamp_exact [OF h1 h2] by (simp add: setup_car_def)
qed

text \<open>
  C10 (functional): in a frame where neither steering key is held, the facing direction
  does not change.
\<close>

theorem car_step_no_keys_direction:
  assumes "KeyA \<notin> keys" and "KeyD \<notin> keys"
  shows "direction (car_step keys c) = direction c"
  using assms by (simp add: car_step_direction steer_direction_cases)

theorem car_step_no_keys_direction_witness:
  "KeyA \<notin> {OtherKey 7} \<and> KeyD \<notin> {OtherKey 7} \<and>
   direction (car_step {OtherKey 7} (setup_car\<lparr>vel := Vec2 3 4\<rparr>)) = Vec2 0 1"
  using car_step_no_keys_direction [of "{OtherKey 7}" "setup_car\<lparr>vel := Vec2 3 4\<rparr>"]
  by (simp add: setup_car_def)

text \<open>
  C11 (functional): holding A turns a car facing angle \<open>\<alpha>\<close> to angle
  \<open>\<alpha> + 0.001 * |vel|\<close>: the turn is to the left and proportional to the speed.
\<close>

theorem car_step_turn_left:
  assumes "direction c = from_angle \<alpha>" and "KeyA \<in> keys"
  shows "direction (car_step keys c) = from_angle (\<alpha> + 0.001 * length_vec2 (vel c))"
  using assms by (simp add: car_step_direction steer_direction_cases rotate_from_angle_add)

theorem car_step_turn_left_witness:
  "direction (setup_car\<lparr>direction := from_angle (pi / 2), vel := Vec2 0 40\<rparr>) = from_angle (pi / 2) \<and>
   KeyA \<in> {KeyA, KeyD} \<and>
   direction (car_step {KeyA, KeyD} (setup_car\<lparr>direction := from_angle (pi / 2), vel := Vec2 0 40\<rparr>))
     = from_angle (pi / 2 + 0.04)"
  using car_step_turn_left [of "setup_car\<lparr>direction := from_angle (pi / 2), vel := Vec2 0 40\<rparr>"
      "pi / 2" "{KeyA, KeyD}"]
  by (simp add: length_vec2_Vec2)

text \<open>
  C12 (functional): holding D without A turns a car facing angle \<open>\<alpha>\<close> to angle
  \<open>\<alpha> - 0.001 * |vel|\<close>.
\<close>

theorem car_step_turn_right:
  assumes "direction c = from_angle \<alpha>" and "KeyA \<notin> keys" and "KeyD \<in> keys"
  shows "direction (car_step keys c) = from_angle (\<alpha> - 0.001 * length_vec2 (vel c))"
  using assms by (simp add: car_step_direction steer_direction_cases rotate_from_angle_add)

theorem car_step_turn_right_witness:
  "direction (setup_car\<lparr>direction := from_angle 0, vel := Vec2 3 4\<rparr>) = from_angle 0 \<and>
   KeyA \<notin> {KeyD} \<and> KeyD \<in> {KeyD} \<and>
   direction (car_step {KeyD} (setup_car\<lparr>direction := from_angle 0, vel := Vec2 3 4\<rparr>))
     = from_angle (- 0.005)"
proof -
  have "length_vec2 (Vec2 3 4) = 5"
    by (simp add: length_vec2_Vec2)
  then show ?thesis
    using car_step_turn_right [of "setup_car\<lparr>direction := from_angle 0, vel := Vec2 3 4\<rparr>"
        0 "{KeyD}"]
    by simp
qed

text \<open>
  C21 (invariant): \<open>sprite_movement\<close> keeps the car invariant: a unit facing direction
  and a speed within a non-negative top speed, whatever keys are held.
\<close>

theorem car_step_preserves_inv:
  assumes "car_inv c"
  shows "car_inv (car_step keys c)"
  using assms by (rule car_inv_car_step)

theorem car_step_preserves_inv_witness:
  "car_inv setup_car \<and> car_inv (car_step {KeyA} setup_car)"
  using car_step_preserves_inv [OF car_inv_setup_car, of "{KeyA}"] car_inv_setup_car by simp

text \<open>
  C22 (functional): a car at rest does not turn, whichever steering key is held, because
  the steering angle is proportional to the speed.
\<close>

theorem car_step_at_rest_no_turn:
  assumes "vel c = Vec2 0 0"
  shows "direction (car_step keys c) = direction c"
  using assms by (simp add: car_step_direction steer_direction_cases length_vec2_Vec2)

theorem car_step_at_rest_no_turn_witness:
  "vel setup_car = Vec2 0 0 \<and> direction (car_step {KeyA} setup_car) = Vec2 0 1"
  using car_step_at_rest_no_turn [of setup_car "{KeyA}"] by (simp add: setup_car_def)

text \<open>
  C26 (functional): the sprite write-back of \<open>sprite_movement\<close>. The car sprite is
  drawn at screen height \<open>-200\<close> and at the car's new world \<open>x\<close>, and a car facing
  straight up is drawn unrotated (\<open>to_angle (0, 1) - \<pi>/2 = 0\<close>).
\<close>

theorem sprite_movement_sprite_sync:
  assumes "direction (car_step keys (car_comp e)) = Vec2 0 1"
  shows "translation (car_transform (sprite_movement_entity keys e)) =
           (translation (car_transform e))\<lparr>vec3_y := -200, vec3_x := vec2_x (pos (car_step keys (car_comp e)))\<rparr>
         \<and> rotation (car_transform (sprite_movement_entity keys e)) = quat_identity"
  using assms
  by (simp add: sprite_movement_entity_def Let_def sync_sprite_def to_angle_up from_rotation_z_0)

theorem sprite_movement_sprite_sync_witness:
  "direction (car_step {} setup_car) = Vec2 0 1 \<and>
   translation (car_transform (sprite_movement_entity {}
      \<lparr>car_comp = setup_car, car_transform = from_xyz 100 0 0, car_texture = load ''racecar_center.png''\<rparr>))
     = \<lparr>vec3_x = vec2_x (pos (car_step {} setup_car)), vec3_y = -200, vec3_z = 0\<rparr> \<and>
   rotation (car_transform (sprite_movement_entity {}
      \<lparr>car_comp = setup_car, car_transform = from_xyz 100 0 0, car_texture = load ''racecar_center.png''\<rparr>))
     = quat_identity"
proof -
  have h: "direction (car_step {} (car_comp
      \<lparr>car_comp = setup_car, car_transform = from_xyz 100 0 0, car_texture = load ''racecar_center.png''\<rparr>))
      = Vec2 0 1"
    by (simp add: car_step_direction steer_direction_cases setup_car_def)
  show ?thesis using h sprite_movement_sprite_sync [OF h] by (simp add: from_xyz_def)
qed

end
