(* ===== verification/Obstacles.thy ===== *)
theory Obstacles
  imports Car
begin

text \<open>
  The obstacles of \<open>src/src/main.rs\<close>: the \<open>Obstacle\<close> component (lines 22--25),
  the level table \<open>lv1_turns\<close> (36--38), the start-up spawning loop
  \<open>setup_obstacles\<close> (40--87) and the camera-follow system
  \<open>obstacle_update_system\<close> (189--195). The spawning loop is two nested recursions
  threading the running \<open>ypos\<close>; the camera-follow system is a map over the obstacle
  entities that reads the first car, and panics when there is none.
\<close>

section \<open>Data\<close>

datatype obstacle = Obstacle (obstacle_pos: vec2)

text \<open>An obstacle entity: its \<open>SpriteBundle\<close> (transform, texture) and \<open>Obstacle\<close>.\<close>

record obstacle_entity =
  obst :: obstacle
  obst_transform :: transform
  obst_texture :: image_handle

section \<open>Level layout (start-up)\<close>

text \<open>Lines 36--38: rows of \<open>(count, x-offset)\<close>.\<close>

definition lv1_turns :: "(nat \<times> real) list" where
  "lv1_turns = [(10, 0), (20, 50), (30, 100)]"

text \<open>Line 57.\<close>

definition left_side :: real where
  "left_side = -400"

text \<open>
  One \<open>commands.spawn\<close> of lines 63--72 or 73--82: a cone sprite with the row's
  transform (\<open>from_xyz(xpos, 20, -1)\<close> scaled by \<open>0.1\<close>, lines 60--61) and an
  \<open>Obstacle\<close> at \<open>(x, ypos)\<close>.
\<close>

definition spawn_cone :: "real \<Rightarrow> real \<Rightarrow> real \<Rightarrow> obstacle_entity" where
  "spawn_cone xpos x ypos =
     \<lparr>obst = Obstacle (Vec2 x ypos), obst_transform = scaled_at xpos 20 (-1) 0.1,
      obst_texture = load ''cone.png''\<rparr>"

text \<open>
  Lines 62--85: \<open>num\<close> iterations, each spawning the pair at \<open>xpos + left_side\<close> and
  \<open>xpos - left_side\<close> and then advancing \<open>ypos\<close> by 100. Returns the spawned entities
  in spawn order and the final \<open>ypos\<close>.
\<close>

fun spawn_row :: "nat \<Rightarrow> real \<Rightarrow> real \<Rightarrow> obstacle_entity list \<times> real" where
  "spawn_row 0 xpos ypos = ([], ypos)"
| "spawn_row (Suc n) xpos ypos =
     (let r = spawn_row n xpos (ypos + 100)
      in (spawn_cone xpos (xpos + left_side) ypos # spawn_cone xpos (xpos - left_side) ypos # fst r,
          snd r))"

text \<open>Lines 59--86: the outer loop over the rows, \<open>ypos\<close> carried across rows.\<close>

fun spawn_rows :: "(nat \<times> real) list \<Rightarrow> real \<Rightarrow> obstacle_entity list" where
  "spawn_rows [] ypos = []"
| "spawn_rows ((num, xpos) # rows) ypos =
     (let r = spawn_row num xpos ypos in fst r @ spawn_rows rows (snd r))"

text \<open>Lines 40--87, \<open>ypos\<close> starting at \<open>-100\<close> (line 56).\<close>

definition setup_obstacles :: "obstacle_entity list" where
  "setup_obstacles = spawn_rows lv1_turns (-100)"

section \<open>Camera follow\<close>

text \<open>
  Lines 191--194: the obstacle's screen transform is its world \<open>x\<close> and its world
  \<open>y\<close> less the car's \<open>y\<close>; \<open>z\<close>, rotation and scale are left alone, and so is the
  logical \<open>Obstacle\<close>.
\<close>

definition obstacle_update_entity :: "car \<Rightarrow> obstacle_entity \<Rightarrow> obstacle_entity" where
  "obstacle_update_entity c e =
     e\<lparr>obst_transform := (obst_transform e)\<lparr>translation :=
        (translation (obst_transform e))\<lparr>vec3_x := vec2_x (obstacle_pos (obst e)),
                                         vec3_y := vec2_y (obstacle_pos (obst e)) - vec2_y (pos c)\<rparr>\<rparr>\<rparr>"

text \<open>
  Lines 189--195: \<open>car.iter().next().unwrap()\<close> takes the first car and panics when
  there is none, before the loop, so even with no obstacles.
\<close>

definition obstacle_update_system ::
  "car_entity list \<Rightarrow> obstacle_entity list \<Rightarrow> obstacle_entity list result" where
  "obstacle_update_system cs obs =
     (case cs of [] \<Rightarrow> Inl UnwrapNone
      | e # _ \<Rightarrow> Inr (map (obstacle_update_entity (car_comp e)) obs))"

section \<open>Facts about the layout\<close>

lemma spawn_row_length: "length (fst (spawn_row n xpos ypos)) = 2 * n"
  by (induction n arbitrary: ypos) (simp_all add: Let_def)

lemma spawn_row_ypos: "snd (spawn_row n xpos ypos) = ypos + 100 * n"
  by (induction n arbitrary: ypos) (simp_all add: Let_def algebra_simps)

lemma spawn_rows_length: "length (spawn_rows rows ypos) = 2 * sum_list (map fst rows)"
  by (induction rows ypos rule: spawn_rows.induct) (simp_all add: Let_def spawn_row_length)

lemma spawn_row_nth_y:
  "i < 2 * n \<Longrightarrow>
   vec2_y (obstacle_pos (obst (fst (spawn_row n xpos ypos) ! i))) = ypos + 100 * real (i div 2)"
proof (induction n arbitrary: ypos i)
  case 0
  then show ?case by simp
next
  case (Suc n)
  show ?case
  proof (cases "i < 2")
    case True
    then show ?thesis by (cases i) (auto simp: Let_def spawn_cone_def nth_Cons')
  next
    case False
    then have i: "i = Suc (Suc (i - 2))" by arith
    have "i - 2 < 2 * n" using Suc.prems False by arith
    then have "vec2_y (obstacle_pos (obst (fst (spawn_row n xpos (ypos + 100)) ! (i - 2))))
               = ypos + 100 + 100 * real ((i - 2) div 2)"
      by (rule Suc.IH)
    moreover have "real (i div 2) = 1 + real ((i - 2) div 2)"
      using False by (simp add: div_if)
    ultimately show ?thesis
      by (subst i) (simp add: Let_def algebra_simps)
  qed
qed

lemma spawn_rows_nth_y:
  "i < length (spawn_rows rows ypos) \<Longrightarrow>
   vec2_y (obstacle_pos (obst (spawn_rows rows ypos ! i))) = ypos + 100 * real (i div 2)"
proof (induction rows ypos arbitrary: i rule: spawn_rows.induct)
  case (1 ypos)
  then show ?case by simp
next
  case (2 num xpos rows ypos)
  let ?es = "fst (spawn_row num xpos ypos)"
  show ?case
  proof (cases "i < 2 * num")
    case True
    then show ?thesis
      by (simp add: Let_def nth_append spawn_row_length spawn_row_nth_y)
  next
    case False
    have len: "i - 2 * num < length (spawn_rows rows (ypos + 100 * real num))"
      using "2.prems" False by (simp add: Let_def spawn_row_length spawn_row_ypos)
    have "i div 2 = num + (i - 2 * num) div 2"
      using False by (simp add: div_add_self1 [symmetric] add.commute [of num] mult.commute [of 2])
    then have "real (i div 2) = real num + real ((i - 2 * num) div 2)"
      by simp
    then show ?thesis
      using False "2.IH" len
      by (simp add: Let_def nth_append spawn_row_length spawn_row_ypos algebra_simps)
  qed
qed

lemma spawn_row_xs:
  "obstacle_pos ` obst ` set (fst (spawn_row n xpos ypos)) \<subseteq>
     {p. vec2_x p = xpos + left_side \<or> vec2_x p = xpos - left_side}"
  by (induction n arbitrary: ypos) (auto simp: Let_def spawn_cone_def)

lemma spawn_rows_xs:
  "obstacle_pos ` obst ` set (spawn_rows rows ypos) \<subseteq>
     {p. \<exists>(num, xpos) \<in> set rows. vec2_x p = xpos + left_side \<or> vec2_x p = xpos - left_side}"
proof (induction rows ypos rule: spawn_rows.induct)
  case (1 ypos)
  then show ?case by simp
next
  case (2 num xpos rows ypos)
  have "obstacle_pos ` obst ` set (fst (spawn_row num xpos ypos)) \<subseteq>
     {p. vec2_x p = xpos + left_side \<or> vec2_x p = xpos - left_side}"
    by (rule spawn_row_xs)
  with "2.IH" show ?case
    by (fastforce simp: Let_def)
qed

lemma setup_obstacles_x_values:
  assumes "ob \<in> set setup_obstacles"
  shows "vec2_x (obstacle_pos (obst ob)) \<in> {-400, 400, -350, 450, -300, 500}"
proof -
  have "obstacle_pos (obst ob) \<in> obstacle_pos ` obst ` set (spawn_rows lv1_turns (-100))"
    using assms by (simp add: setup_obstacles_def)
  then have "obstacle_pos (obst ob) \<in>
     {p. \<exists>(num, xpos) \<in> set lv1_turns. vec2_x p = xpos + left_side \<or> vec2_x p = xpos - left_side}"
    using spawn_rows_xs by blast
  then show ?thesis by (auto simp: lv1_turns_def left_side_def)
qed

lemma obstacle_update_entity_obst [simp]: "obst (obstacle_update_entity c e) = obst e"
  by (simp add: obstacle_update_entity_def)

lemma obstacle_update_system_Inr:
  "obstacle_update_system cs obs = Inr obs' \<longleftrightarrow>
     cs \<noteq> [] \<and> obs' = map (obstacle_update_entity (car_comp (hd cs))) obs"
  by (cases cs) (auto simp: obstacle_update_system_def)

lemma spawn_row_pair:
  "i < n \<Longrightarrow>
   fst (spawn_row n xpos ypos) ! (2 * i) = spawn_cone xpos (xpos + left_side) (ypos + 100 * real i) \<and>
   fst (spawn_row n xpos ypos) ! Suc (2 * i) = spawn_cone xpos (xpos - left_side) (ypos + 100 * real i)"
proof (induction n arbitrary: ypos i)
  case 0
  then show ?case by simp
next
  case (Suc n)
  show ?case
  proof (cases i)
    case 0
    then show ?thesis by (simp add: Let_def)
  next
    case (Suc j)
    with Suc.prems have "j < n" by simp
    from Suc.IH [OF this, of "ypos + 100"] show ?thesis
      using Suc by (simp add: Let_def algebra_simps)
  qed
qed

lemma spawn_cone_mirror:
  "obstacle_pos (obst (spawn_cone xpos (xpos - left_side) y)) =
   add_vec2 (obstacle_pos (obst (spawn_cone xpos (xpos + left_side) y))) (Vec2 800 0)"
  by (simp add: spawn_cone_def left_side_def vec_simps)

section \<open>Properties of the layout\<close>

text \<open>
  C5 (functional): for any level table and starting \<open>ypos\<close>, the spawning loop creates
  \<open>2 * (sum of the row counts)\<close> obstacles, in mirrored pairs: the obstacle at
  each odd position sits 800 units (twice \<open>|left_side|\<close>) to the right of the one
  before it, at the same height.
\<close>

theorem spawn_rows_mirrored_pairs:
  "length (spawn_rows rows ypos) = 2 * sum_list (map fst rows) \<and>
   (\<forall>i. Suc (2 * i) < length (spawn_rows rows ypos) \<longrightarrow>
      obstacle_pos (obst (spawn_rows rows ypos ! Suc (2 * i))) =
      add_vec2 (obstacle_pos (obst (spawn_rows rows ypos ! (2 * i)))) (Vec2 800 0))"
proof (induction rows ypos rule: spawn_rows.induct)
  case (1 ypos)
  then show ?case by simp
next
  case (2 num xpos rows ypos)
  let ?r = "spawn_row num xpos ypos"
  have pairs: "obstacle_pos (obst (spawn_rows ((num, xpos) # rows) ypos ! Suc (2 * i))) =
      add_vec2 (obstacle_pos (obst (spawn_rows ((num, xpos) # rows) ypos ! (2 * i)))) (Vec2 800 0)"
    if i: "Suc (2 * i) < length (spawn_rows ((num, xpos) # rows) ypos)" for i
  proof (cases "i < num")
    case True
    then show ?thesis
      using spawn_row_pair [OF True, of xpos ypos]
      by (simp add: Let_def nth_append spawn_row_length spawn_cone_mirror)
  next
    case False
    then have "Suc (2 * (i - num)) < length (spawn_rows rows (snd ?r))"
      using i by (simp add: Let_def spawn_row_length)
    with "2.IH" [OF refl] have
      "obstacle_pos (obst (spawn_rows rows (snd ?r) ! Suc (2 * (i - num)))) =
       add_vec2 (obstacle_pos (obst (spawn_rows rows (snd ?r) ! (2 * (i - num))))) (Vec2 800 0)"
      by blast
    moreover have "Suc (2 * i) - 2 * num = Suc (2 * (i - num))" "2 * i - 2 * num = 2 * (i - num)"
      using False by simp_all
    ultimately show ?thesis
      using False by (simp add: Let_def nth_append spawn_row_length)
  qed
  show ?case
    using "2.IH" [OF refl] pairs by (simp add: Let_def spawn_row_length)
qed

theorem spawn_rows_mirrored_pairs_witness:
  "length (spawn_rows [(1, 0)] 0) = 2 \<and>
   Suc (2 * 0) < length (spawn_rows [(1, 0)] 0) \<and>
   obstacle_pos (obst (spawn_rows [(1, 0)] 0 ! 1)) = Vec2 400 0 \<and>
   obstacle_pos (obst (spawn_rows [(1, 0)] 0 ! 1)) =
     add_vec2 (obstacle_pos (obst (spawn_rows [(1, 0)] 0 ! 0))) (Vec2 800 0)"
  using spawn_rows_mirrored_pairs [of "[(1, 0)]" 0]
  by (simp add: spawn_cone_def left_side_def)

text \<open>
  C18 (functional): the obstacles come in mirrored pairs at \<open>y = -100, 0, 100, \<dots>\<close>:
  the \<open>i\<close>-th spawned obstacle sits at \<open>y = -100 + 100 * (i div 2)\<close>, the running
  \<open>ypos\<close> carrying over from one row to the next.
\<close>

theorem setup_obstacles_y:
  assumes "i < length setup_obstacles"
  shows "vec2_y (obstacle_pos (obst (setup_obstacles ! i))) = -100 + 100 * real (i div 2)"
  using assms unfolding setup_obstacles_def by (rule spawn_rows_nth_y)

theorem setup_obstacles_y_witness:
  "119 < length setup_obstacles \<and> vec2_y (obstacle_pos (obst (setup_obstacles ! 119))) = 5800"
proof -
  have h: "119 < length setup_obstacles"
    by (simp only: setup_obstacles_def spawn_rows_length) (simp add: lv1_turns_def)
  show ?thesis using h setup_obstacles_y [OF h] by simp
qed

text \<open>
  C23 (safety): every obstacle of the level lies at least 300 units to the side of the
  car's spawn column \<open>x = 100\<close>: the obstacle x-coordinates are
  \<open>xpos \<plusminus> 400\<close> for \<open>xpos \<in> {0, 50, 100}\<close>.
\<close>

theorem setup_obstacles_clear_of_spawn_column:
  assumes "ob \<in> set setup_obstacles"
  shows "300 \<le> \<bar>vec2_x (obstacle_pos (obst ob)) - 100\<bar>"
  using setup_obstacles_x_values [OF assms] by auto

theorem setup_obstacles_clear_of_spawn_column_witness:
  "setup_obstacles ! 0 \<in> set setup_obstacles \<and>
   300 \<le> \<bar>vec2_x (obstacle_pos (obst (setup_obstacles ! 0))) - 100\<bar>"
proof -
  have h: "setup_obstacles ! 0 \<in> set setup_obstacles"
    by (rule nth_mem) (simp only: setup_obstacles_def spawn_rows_length, simp add: lv1_turns_def)
  show ?thesis using h setup_obstacles_clear_of_spawn_column [OF h] by simp
qed

section \<open>Properties of obstacle_update_system\<close>

text \<open>
  C19 (functional): camera follow. When \<open>obstacle_update_system\<close> succeeds, each
  obstacle's screen translation becomes its world \<open>x\<close> and its world \<open>y\<close> minus the
  first car's \<open>y\<close>, its \<open>z\<close> is kept, and its logical position is unchanged.
\<close>

theorem obstacle_update_camera_follow:
  assumes "obstacle_update_system cs obs = Inr obs'" and "i < length obs"
  shows "translation (obst_transform (obs' ! i)) =
           \<lparr>vec3_x = vec2_x (obstacle_pos (obst (obs ! i))),
            vec3_y = vec2_y (obstacle_pos (obst (obs ! i))) - vec2_y (pos (car_comp (hd cs))),
            vec3_z = vec3_z (translation (obst_transform (obs ! i)))\<rparr>
         \<and> obst (obs' ! i) = obst (obs ! i) \<and> length obs' = length obs"
  using assms by (auto simp: obstacle_update_system_Inr obstacle_update_entity_def)

theorem obstacle_update_camera_follow_witness:
  "obstacle_update_system [\<lparr>car_comp = setup_car\<lparr>pos := Vec2 100 250\<rparr>,
       car_transform = from_xyz 0 0 0, car_texture = load ''racecar_center.png''\<rparr>] [spawn_cone 0 (-400) 300]
     = Inr [obstacle_update_entity (setup_car\<lparr>pos := Vec2 100 250\<rparr>) (spawn_cone 0 (-400) 300)] \<and>
   0 < length [spawn_cone 0 (-400) 300] \<and>
   translation (obst_transform ([obstacle_update_entity (setup_car\<lparr>pos := Vec2 100 250\<rparr>)
      (spawn_cone 0 (-400) 300)] ! 0)) = \<lparr>vec3_x = -400, vec3_y = 50, vec3_z = -1\<rparr>"
proof -
  have h: "obstacle_update_system [\<lparr>car_comp = setup_car\<lparr>pos := Vec2 100 250\<rparr>,
       car_transform = from_xyz 0 0 0, car_texture = load ''racecar_center.png''\<rparr>] [spawn_cone 0 (-400) 300]
     = Inr [obstacle_update_entity (setup_car\<lparr>pos := Vec2 100 250\<rparr>) (spawn_cone 0 (-400) 300)]"
    by (simp add: obstacle_update_system_def)
  show ?thesis
    using h obstacle_update_camera_follow [OF h, of 0]
    by (simp add: spawn_cone_def scaled_at_def from_xyz_def)
qed

text \<open>
  C20 (error): \<open>obstacle_update_system\<close> fails exactly when there is no car entity,
  and then with the \<open>unwrap()\<close> panic, whatever the obstacles (even none): the
  first car is taken before the loop.
\<close>

theorem obstacle_update_no_car_panics:
  "obstacle_update_system cs obs = Inl p \<longleftrightarrow> cs = [] \<and> p = UnwrapNone"
  by (cases cs) (auto simp: obstacle_update_system_def)

end
