(* ===== verification/Collision.thy ===== *)
theory Collision
  imports Obstacles
begin

text \<open>
  \<open>collision_update_system\<close> of \<open>src/src/main.rs\<close> (lines 197--205): take the one
  car with \<open>single_mut()\<close> (panicking on zero or several), then scan the obstacles in
  query order and reset the car to the spawn point at rest whenever the car is within
  100 units of the obstacle being scanned. The scan is \<open>collision_loop\<close>; the
  reference \<open>collision_spec\<close> says what it computes in one step, and the refinement
  lemma shows the two agree, from which idempotence and independence of the scan order
  follow.
\<close>

section \<open>Model\<close>

text \<open>Lines 201--202: velocity zero, position back to \<open>(100, 0)\<close>.\<close>

definition reset_car :: "car \<Rightarrow> car" where
  "reset_car c = c\<lparr>vel := Vec2 0 0, pos := Vec2 100 0\<rparr>"

text \<open>Lines 200--203: one obstacle tested against the car's current position.\<close>

definition collision_check :: "obstacle_entity \<Rightarrow> car \<Rightarrow> car" where
  "collision_check ob c = (if distance (pos c) (obstacle_pos (obst ob)) < 100 then reset_car c else c)"

text \<open>Lines 199--204: the loop; a reset by one obstacle is seen by the later tests.\<close>

fun collision_loop :: "obstacle_entity list \<Rightarrow> car \<Rightarrow> car" where
  "collision_loop [] c = c"
| "collision_loop (ob # obs) c = collision_loop obs (collision_check ob c)"

text \<open>
  Lines 197--205. \<open>single_mut()\<close> yields \<open>QuerySingleError::NoEntities\<close> or
  \<open>MultipleEntities\<close>, and the system panics on either.
\<close>

definition collision_update_system ::
  "car_entity list \<Rightarrow> obstacle_entity list \<Rightarrow> car_entity list result" where
  "collision_update_system cs obs =
     (case cs of [] \<Rightarrow> Inl NoEntities
      | [e] \<Rightarrow> Inr [e\<lparr>car_comp := collision_loop obs (car_comp e)\<rparr>]
      | _ \<Rightarrow> Inl MultipleEntities)"

section \<open>Reference specification\<close>

text \<open>Is the car within the collision radius of the obstacle?\<close>

definition near :: "car \<Rightarrow> obstacle_entity \<Rightarrow> bool" where
  "near c ob \<longleftrightarrow> distance (pos c) (obstacle_pos (obst ob)) < 100"

text \<open>
  What the scan promises: the car is reset exactly when some obstacle is near its
  position at the start of the scan, and is otherwise untouched.
\<close>

definition collision_spec :: "obstacle_entity list \<Rightarrow> car \<Rightarrow> car" where
  "collision_spec obs c = (if list_ex (near c) obs then reset_car c else c)"

section \<open>Facts\<close>

lemma reset_car_idem [simp]: "reset_car (reset_car c) = reset_car c"
  by (simp add: reset_car_def)

lemma reset_car_fields [simp]:
  "pos (reset_car c) = Vec2 100 0" "vel (reset_car c) = Vec2 0 0"
  "direction (reset_car c) = direction c" "base_acc (reset_car c) = base_acc c"
  "top_speed (reset_car c) = top_speed c"
  by (simp_all add: reset_car_def)

lemma collision_check_cases:
  "collision_check ob c = (if near c ob then reset_car c else c)"
  by (simp add: collision_check_def near_def)

lemma near_reset_car_cong: "near (reset_car c) = near (reset_car c')"
  by (simp add: fun_eq_iff near_def)

lemma collision_spec_reset: "collision_spec obs (reset_car c) = reset_car c"
  by (simp add: collision_spec_def)

lemma collision_loop_eq_spec: "collision_loop obs c = collision_spec obs c"
proof (induction obs arbitrary: c)
  case Nil
  then show ?case by (simp add: collision_spec_def)
next
  case (Cons ob obs)
  show ?case
  proof (cases "near c ob")
    case True
    then show ?thesis
      by (simp add: Cons.IH collision_check_cases collision_spec_reset collision_spec_def)
  next
    case False
    then show ?thesis
      by (simp add: Cons.IH collision_check_cases collision_spec_def)
  qed
qed

lemma collision_update_system_Inr:
  "collision_update_system cs obs = Inr cs' \<longleftrightarrow>
     (\<exists>e. cs = [e] \<and> cs' = [e\<lparr>car_comp := collision_loop obs (car_comp e)\<rparr>])"
  by (auto simp: collision_update_system_def split: list.splits)

lemma collision_loop_no_near: "\<not> list_ex (near c) obs \<Longrightarrow> collision_loop obs c = c"
  by (simp add: collision_loop_eq_spec collision_spec_def)

section \<open>Properties\<close>

text \<open>
  C4 (refinement): the obstacle scan of \<open>collision_update_system\<close> computes the
  reference \<open>collision_spec\<close>: the car is reset to \<open>(100, 0)\<close> at rest exactly when
  some obstacle is within 100 units of its position before the scan, and is otherwise
  unchanged; resets by several obstacles collapse into one.
\<close>

theorem collision_loop_refines_spec:
  "collision_loop obs c = (if \<exists>ob \<in> set obs. near c ob then reset_car c else c)"
  using collision_loop_eq_spec [of obs c] by (simp add: collision_spec_def list_ex_iff)

theorem collision_loop_refines_spec_witness:
  "collision_loop [spawn_cone 0 (-400) 0, spawn_cone 0 150 20] (setup_car\<lparr>pos := Vec2 100 0\<rparr>)
     = reset_car (setup_car\<lparr>pos := Vec2 100 0\<rparr>)"
proof -
  have "near (setup_car\<lparr>pos := Vec2 100 0\<rparr>) (spawn_cone 0 150 20)"
    by (simp add: near_def spawn_cone_def distance_Vec2 sqrt_less_const_iff)
  then show ?thesis
    by (simp only: collision_loop_refines_spec [of "[spawn_cone 0 (-400) 0, spawn_cone 0 150 20]"]) auto
qed

text \<open>
  C14 (functional): the collision scan is idempotent: scanning the same obstacles again
  from the scan's result changes nothing (a reset car is either clear of every obstacle or
  reset once more to the same state).
\<close>

theorem collision_loop_idempotent:
  "collision_loop obs (collision_loop obs c) = collision_loop obs c"
  by (simp add: collision_loop_eq_spec collision_spec_def)

text \<open>
  C15 (equivalence): the outcome of the scan does not depend on the order in which the
  query yields the obstacles: any permutation of the obstacle list gives the same car.
\<close>

theorem collision_loop_order_independent:
  assumes "mset obs' = mset obs"
  shows "collision_loop obs' c = collision_loop obs c"
proof -
  have "set obs' = set obs" using assms by (metis set_mset_mset)
  then show ?thesis by (simp add: collision_loop_eq_spec collision_spec_def list_ex_iff)
qed

theorem collision_loop_order_independent_witness:
  "mset [spawn_cone 0 150 20, spawn_cone 0 (-400) 0] = mset [spawn_cone 0 (-400) 0, spawn_cone 0 150 20] \<and>
   collision_loop [spawn_cone 0 150 20, spawn_cone 0 (-400) 0] setup_car
     = collision_loop [spawn_cone 0 (-400) 0, spawn_cone 0 150 20] setup_car"
proof -
  have h: "mset [spawn_cone 0 150 20, spawn_cone 0 (-400) 0] = mset [spawn_cone 0 (-400) 0, spawn_cone 0 150 20]"
    by (simp add: add_mset_commute)
  show ?thesis using h collision_loop_order_independent [OF h] by simp
qed

end
