(* ===== verification/Hud.thy ===== *)
theory Hud
  imports Prelude
begin

text \<open>
  The elapsed-time label of \<open>src/src/main.rs\<close>: \<open>text_update_system\<close> (lines
  183--187) writes \<open>format!("Time: {}", time.elapsed_seconds().floor())\<close> into the
  first section of every \<open>TimerText\<close> text. An integral \<open>f32\<close> is displayed by Rust
  as its decimal digits with no fractional part (\<open>3.0\<close> prints \<open>3\<close>), with a minus
  sign when negative. \<open>sections[0]\<close> on a text with no sections panics. A decimal
  parser, the inverse of the printer, shows the label determines the floored time.
\<close>

section \<open>Printing the floored time\<close>

definition digit_char :: "nat \<Rightarrow> char" where
  "digit_char d = char_of (48 + d)"

fun decimal :: "nat \<Rightarrow> string" where
  "decimal n = (if n < 10 then [digit_char n] else decimal (n div 10) @ [digit_char (n mod 10)])"

declare decimal.simps [simp del]

text \<open>\<open>Display\<close> of an \<open>f32\<close> with an integral value, here the result of \<open>floor()\<close>.\<close>

definition display_integral :: "int \<Rightarrow> string" where
  "display_integral i = (if i < 0 then ''-'' @ decimal (nat (- i)) else decimal (nat i))"

text \<open>Line 185: the label text for an elapsed time of \<open>t\<close> seconds.\<close>

definition format_time :: "real \<Rightarrow> string" where
  "format_time t = ''Time: '' @ display_integral \<lfloor>t\<rfloor>"

section \<open>The system\<close>

text \<open>A \<open>Text\<close> component, as the list of its sections' strings.\<close>

record hud_text =
  sections :: "string list"

text \<open>Line 185 for one text: \<open>sections[0]\<close> panics when there is no section.\<close>

definition text_update_entity :: "real \<Rightarrow> hud_text \<Rightarrow> hud_text result" where
  "text_update_entity t x =
     (if sections x = [] then Inl IndexOutOfBounds
      else Inr (x\<lparr>sections := (sections x)[0 := format_time t]\<rparr>))"

text \<open>Lines 183--187: the loop over the texts; the first panic ends the frame.\<close>

fun text_update_system :: "real \<Rightarrow> hud_text list \<Rightarrow> hud_text list result" where
  "text_update_system t [] = Inr []"
| "text_update_system t (x # xs) =
     bind_result (text_update_entity t x) (\<lambda>x'.
       bind_result (text_update_system t xs) (\<lambda>xs'. Inr (x' # xs')))"

section \<open>Reading the label back\<close>

definition digit_val :: "char \<Rightarrow> nat option" where
  "digit_val c = (if (48::nat) \<le> of_char c \<and> of_char c < (58::nat) then Some (of_char c - 48) else None)"

fun parse_digits :: "nat \<Rightarrow> string \<Rightarrow> nat option" where
  "parse_digits acc [] = Some acc"
| "parse_digits acc (c # cs) =
     (case digit_val c of None \<Rightarrow> None | Some d \<Rightarrow> parse_digits (10 * acc + d) cs)"

definition parse_nat :: "string \<Rightarrow> nat option" where
  "parse_nat s = (if s = [] then None else parse_digits 0 s)"

definition parse_int :: "string \<Rightarrow> int option" where
  "parse_int s =
     (if s \<noteq> [] \<and> hd s = CHR ''-'' then map_option (\<lambda>n. - int n) (parse_nat (tl s))
      else map_option int (parse_nat s))"

definition parse_time :: "string \<Rightarrow> int option" where
  "parse_time s = (if take 6 s = ''Time: '' then parse_int (drop 6 s) else None)"

section \<open>Facts\<close>

lemma digit_val_digit_char [simp]: "d < 10 \<Longrightarrow> digit_val (digit_char d) = Some d"
  by (simp add: digit_val_def digit_char_def)

lemma parse_digits_append:
  "parse_digits acc (xs @ ys) = (case parse_digits acc xs of None \<Rightarrow> None | Some a \<Rightarrow> parse_digits a ys)"
  by (induction acc xs rule: parse_digits.induct) (simp_all split: option.splits)

lemma parse_digits_decimal: "parse_digits acc (decimal n) = Some (acc * 10 ^ length (decimal n) + n)"
proof (induction n arbitrary: acc rule: decimal.induct)
  case (1 n)
  show ?case
  proof (cases "n < 10")
    case True
    then show ?thesis by (simp add: decimal.simps [of n])
  next
    case False
    then have "parse_digits acc (decimal n)
        = parse_digits (acc * 10 ^ length (decimal (n div 10)) + n div 10) [digit_char (n mod 10)]"
      by (simp add: decimal.simps [of n] parse_digits_append "1.IH")
    also have "\<dots> = Some (acc * 10 ^ length (decimal n) + n)"
      using False by (simp add: decimal.simps [of n] algebra_simps)
    finally show ?thesis .
  qed
qed

lemma decimal_not_Nil [simp]: "decimal n \<noteq> []"
  by (simp add: decimal.simps [of n])

lemma digit_char_not_minus: "d < 10 \<Longrightarrow> digit_char d \<noteq> CHR ''-''"
proof
  assume "d < 10" and "digit_char d = CHR ''-''"
  then have "(of_char (digit_char d) :: nat) = of_char (CHR ''-'')" by simp
  with \<open>d < 10\<close> show False by (simp add: digit_char_def of_char_of)
qed

lemma decimal_hd_not_minus: "hd (decimal n) \<noteq> CHR ''-''"
proof (induction n rule: decimal.induct)
  case (1 n)
  show ?case
  proof (cases "n < 10")
    case True
    then show ?thesis by (simp add: decimal.simps [of n] digit_char_not_minus)
  next
    case False
    then show ?thesis using "1.IH" by (simp add: decimal.simps [of n])
  qed
qed

lemma parse_nat_decimal [simp]: "parse_nat (decimal n) = Some n"
  by (simp add: parse_nat_def parse_digits_decimal)

lemma parse_int_decimal: "parse_int (decimal n) = Some (int n)"
  by (simp add: parse_int_def decimal_hd_not_minus)

lemma parse_int_display_integral: "parse_int (display_integral i) = Some i"
  by (simp add: display_integral_def parse_int_decimal parse_int_def decimal_hd_not_minus)

lemma text_update_entity_Inr:
  "text_update_entity t x = Inr x' \<longleftrightarrow>
     sections x \<noteq> [] \<and> x' = x\<lparr>sections := (sections x)[0 := format_time t]\<rparr>"
  by (auto simp: text_update_entity_def)

lemma text_update_system_Inr:
  "text_update_system t xs = Inr ys \<longleftrightarrow>
     (\<forall>x \<in> set xs. sections x \<noteq> []) \<and>
     ys = map (\<lambda>x. x\<lparr>sections := (sections x)[0 := format_time t]\<rparr>) xs"
  by (induction xs arbitrary: ys) (auto simp: bind_result_eq_Inr text_update_entity_Inr)

lemma text_update_system_panics:
  "x \<in> set xs \<Longrightarrow> sections x = [] \<Longrightarrow> text_update_system t xs = Inl IndexOutOfBounds"
proof (induction xs)
  case Nil
  then show ?case by simp
next
  case (Cons y ys)
  show ?case
  proof (cases "sections y = []")
    case True
    then show ?thesis by (simp add: text_update_entity_def)
  next
    case False
    with Cons.prems have "x \<in> set ys" by auto
    with Cons.IH Cons.prems(2) False show ?thesis by (simp add: text_update_entity_def)
  qed
qed

section \<open>Properties\<close>

text \<open>
  C16 (roundtrip): the label written by \<open>text_update_system\<close> reads back as the
  floored elapsed time: parsing \<open>format_time t\<close> gives \<open>\<lfloor>t\<rfloor>\<close>, for every
  \<open>t\<close> (negative ones included, through the minus sign).
\<close>

theorem format_time_roundtrip: "parse_time (format_time t) = Some \<lfloor>t\<rfloor>"
  by (simp add: parse_time_def format_time_def parse_int_display_integral)

text \<open>
  C24 (functional): when \<open>text_update_system\<close> succeeds, the first section of every
  timer text holds \<open>format_time t\<close> and its other sections are kept.
\<close>

theorem text_update_writes_label:
  assumes "text_update_system t xs = Inr ys" and "i < length xs"
  shows "length ys = length xs \<and> hd (sections (ys ! i)) = format_time t \<and>
         tl (sections (ys ! i)) = tl (sections (xs ! i))"
proof -
  from assms(1) have ne: "\<forall>x \<in> set xs. sections x \<noteq> []"
    and ys: "ys = map (\<lambda>x. x\<lparr>sections := (sections x)[0 := format_time t]\<rparr>) xs"
    by (simp_all add: text_update_system_Inr)
  from ne assms(2) have "sections (xs ! i) \<noteq> []" by simp
  then show ?thesis using ys assms(2) by (cases "sections (xs ! i)") simp_all
qed

theorem text_update_writes_label_witness:
  "text_update_system (37 / 10) [\<lparr>sections = [''hello'', ''x'']\<rparr>] = Inr [\<lparr>sections = [''Time: 3'', ''x'']\<rparr>] \<and>
   0 < length [\<lparr>sections = [''hello'', ''x'']\<rparr>] \<and>
   hd (sections ([\<lparr>sections = [''Time: 3'', ''x'']\<rparr>] ! 0)) = format_time (37 / 10)"
proof -
  have fl: "\<lfloor>(37 / 10 :: real)\<rfloor> = 3" by (simp add: floor_divide_of_int_eq)
  have ft: "format_time (37 / 10) = ''Time: 3''"
    by (simp add: format_time_def fl display_integral_def decimal.simps digit_char_def char_of_eq_iff)
  have h: "text_update_system (37 / 10) [\<lparr>sections = [''hello'', ''x'']\<rparr>]
           = Inr [\<lparr>sections = [''Time: 3'', ''x'']\<rparr>]"
    by (simp add: text_update_entity_def ft)
  show ?thesis using h text_update_writes_label [OF h, of 0] by simp
qed

text \<open>
  C17 (error): a timer text with no sections makes \<open>text_update_system\<close> panic on
  \<open>sections[0]\<close>, whichever position it has among the texts.
\<close>

theorem text_update_empty_sections_panics:
  assumes "x \<in> set xs" and "sections x = []"
  shows "text_update_system t xs = Inl IndexOutOfBounds"
  using assms by (rule text_update_system_panics)

theorem text_update_empty_sections_panics_witness:
  "\<lparr>sections = []\<rparr> \<in> set [\<lparr>sections = [''a'']\<rparr>, \<lparr>sections = []\<rparr>] \<and>
   sections \<lparr>sections = []\<rparr> = [] \<and>
   text_update_system 5 [\<lparr>sections = [''a'']\<rparr>, \<lparr>sections = []\<rparr>] = Inl IndexOutOfBounds"
  using text_update_empty_sections_panics [of "\<lparr>sections = []\<rparr>"
      "[\<lparr>sections = [''a'']\<rparr>, \<lparr>sections = []\<rparr>]" 5]
  by simp

end
