(* ===== verification/World.thy ===== *)
theory World
  imports Collision Hud
begin

text \<open>
  The whole program of \<open>src/src/main.rs\<close>: the entities \<open>setup\<close> spawns (lines
  89--128), and the \<open>Update\<close> schedule of \<open>main\<close> (lines 5--14) that runs the four
  systems once per frame. The four are registered as one tuple with no ordering
  constraint; Bevy serialises the systems that conflict (\<open>sprite_movement\<close>,
  \<open>obstacle_update_system\<close> and \<open>collision_update_system\<close> all access \<open>Car\<close> or
  \<open>Transform\<close> mutably) in an order it chooses, and \<open>text_update_system\<close> touches
  only \<open>Text\<close>. A frame is therefore modelled as running the four systems in any order
  (\<open>frame\<close>, one rule, any permutation of \<open>update_systems\<close>), stopping at the first
  panic. \<open>reachable\<close> collects the worlds a run of frames can reach from \<open>setup\<close>;
  \<open>world_inv\<close> is what every reachable world satisfies.
\<close>

section \<open>State and schedule\<close>

text \<open>The entities the systems query, in spawn order. The camera has no component any system reads.\<close>

record world =
  cars :: "car_entity list"
  obstacles :: "obstacle_entity list"
  timer_texts :: "hud_text list"

text \<open>What the systems read from the engine each frame: the keys held and \<open>Time\<close>.\<close>

record frame_input =
  pressed_keys :: "keycode set"
  elapsed_seconds :: real

datatype system = SpriteMovement | TextUpdate | ObstacleUpdate | CollisionUpdate

text \<open>One system run against the world (each system's queries over the entities).\<close>

fun run_system :: "frame_input \<Rightarrow> system \<Rightarrow> world \<Rightarrow> world result" where
  "run_system inp SpriteMovement w = Inr (w\<lparr>cars := sprite_movement (pressed_keys inp) (cars w)\<rparr>)"
| "run_system inp TextUpdate w =
     bind_result (text_update_system (elapsed_seconds inp) (timer_texts w)) (\<lambda>ts. Inr (w\<lparr>timer_texts := ts\<rparr>))"
| "run_system inp ObstacleUpdate w =
     bind_result (obstacle_update_system (cars w) (obstacles w)) (\<lambda>obs. Inr (w\<lparr>obstacles := obs\<rparr>))"
| "run_system inp CollisionUpdate w =
     bind_result (collision_update_system (cars w) (obstacles w)) (\<lambda>cs. Inr (w\<lparr>cars := cs\<rparr>))"

fun run_systems :: "frame_input \<Rightarrow> system list \<Rightarrow> world \<Rightarrow> world result" where
  "run_systems inp [] w = Inr w"
| "run_systems inp (s # ss) w = bind_result (run_system inp s w) (run_systems inp ss)"

text \<open>Line 11: the systems added to \<open>Update\<close>.\<close>

definition update_systems :: "system list" where
  "update_systems = [SpriteMovement, TextUpdate, ObstacleUpdate, CollisionUpdate]"

text \<open>
  Lines 89--128: the car at \<open>from_xyz(100, 0, 0)\<close> scaled by \<open>0.2\<close> with the centre
  texture, the level's obstacles, and the text \<open>"hello\nbevy!"\<close> in one section.
\<close>

definition setup_world :: world where
  "setup_world =
     \<lparr>cars = [\<lparr>car_comp = setup_car, car_transform = scaled_at 100 0 0 0.2,
               car_texture = load ''racecar_center.png''\<rparr>],
      obstacles = setup_obstacles,
      timer_texts = [\<lparr>sections = [''hello'' @ CHR 0x0A # ''bevy!'']\<rparr>]\<rparr>"

text \<open>A frame: the four systems in some order the executor chooses, none panicking.\<close>

inductive frame :: "frame_input \<Rightarrow> world \<Rightarrow> world \<Rightarrow> bool" where
  run: "mset order = mset update_systems \<Longrightarrow> run_systems inp order w = Inr w' \<Longrightarrow> frame inp w w'"

text \<open>A frame in which some order of the systems panics.\<close>

inductive frame_panics :: "frame_input \<Rightarrow> world \<Rightarrow> panic \<Rightarrow> bool" where
  run: "mset order = mset update_systems \<Longrightarrow> run_systems inp order w = Inl p \<Longrightarrow> frame_panics inp w p"

inductive reachable :: "world \<Rightarrow> bool" where
  start: "reachable setup_world"
| step: "reachable w \<Longrightarrow> frame inp w w' \<Longrightarrow> reachable w'"

text \<open>
  A run of frames, one per input (the \<open>App::run\<close> loop).
\<close>

inductive frames :: "frame_input list \<Rightarrow> world \<Rightarrow> world \<Rightarrow> bool" where
  Nil: "frames [] w w"
| Cons: "frame inp w w1 \<Longrightarrow> frames inps w1 w2 \<Longrightarrow> frames (inp # inps) w w2"

text \<open>
  How each system acts on the car's logical state, given the obstacles it scans: the
  projection of \<open>run_system\<close> onto \<open>Car\<close> that the frame lemmas use.
\<close>

fun car_effect :: "keycode set \<Rightarrow> obstacle_entity list \<Rightarrow> system \<Rightarrow> car \<Rightarrow> car" where
  "car_effect k obs SpriteMovement = car_step k"
| "car_effect k obs CollisionUpdate = collision_loop obs"
| "car_effect k obs TextUpdate = id"
| "car_effect k obs ObstacleUpdate = id"

inductive_cases frameE: "frame inp w w'"
inductive_cases frame_panicsE: "frame_panics inp w p"

text \<open>
  The world invariant: exactly one car, in the car invariant with the constants of
  \<open>setup\<close>; the obstacles' logical positions those \<open>setup\<close> gave; every timer text has
  a section.
\<close>

definition world_inv :: "world \<Rightarrow> bool" where
  "world_inv w \<longleftrightarrow>
     (\<exists>e. cars w = [e] \<and> car_inv (car_comp e) \<and> top_speed (car_comp e) = 40 \<and> base_acc (car_comp e) = 1)
     \<and> map obst (obstacles w) = map obst setup_obstacles
     \<and> list_all (\<lambda>x. sections x \<noteq> []) (timer_texts w)"

section \<open>Each system keeps the invariant and does not panic\<close>

lemma sprite_movement_single [simp]:
  "sprite_movement keys [e] = [sprite_movement_entity keys e]"
  by (simp add: sprite_movement_def)

lemma car_comp_sprite_movement_entity [simp]:
  "car_comp (sprite_movement_entity keys e) = car_step keys (car_comp e)"
  by (simp add: sprite_movement_entity_def Let_def)

lemma collision_loop_cases: "collision_loop obs c = c \<or> collision_loop obs c = reset_car c"
  by (simp add: collision_loop_eq_spec collision_spec_def)

lemma collision_loop_consts [simp]:
  "top_speed (collision_loop obs c) = top_speed c" "base_acc (collision_loop obs c) = base_acc c"
  using collision_loop_cases [of obs c] by auto

lemma car_inv_reset_car: "car_inv c \<Longrightarrow> car_inv (reset_car c)"
  by (simp add: car_inv_def length_vec2_Vec2)

lemma car_inv_collision_loop: "car_inv c \<Longrightarrow> car_inv (collision_loop obs c)"
  using collision_loop_cases [of obs c] car_inv_reset_car by auto

lemma list_all_sections_update:
  "list_all (\<lambda>x. sections x \<noteq> []) (map (\<lambda>x. x\<lparr>sections := (sections x)[0 := s]\<rparr>) xs)
   = list_all (\<lambda>x. sections x \<noteq> []) xs"
  by (induction xs) simp_all

lemma run_system_inv:
  assumes "world_inv w"
  shows "\<exists>w'. run_system inp s w = Inr w' \<and> world_inv w'"
proof -
  from assms obtain e where cs: "cars w = [e]" and ci: "car_inv (car_comp e)"
    and ts: "top_speed (car_comp e) = 40" and ba: "base_acc (car_comp e) = 1"
    and ob: "map obst (obstacles w) = map obst setup_obstacles"
    and tx: "list_all (\<lambda>x. sections x \<noteq> []) (timer_texts w)"
    by (auto simp: world_inv_def)
  show ?thesis
  proof (cases s)
    case SpriteMovement
    then show ?thesis using cs ci ts ba ob tx by (simp add: world_inv_def car_inv_car_step)
  next
    case TextUpdate
    let ?ts = "map (\<lambda>x. x\<lparr>sections := (sections x)[0 := format_time (elapsed_seconds inp)]\<rparr>) (timer_texts w)"
    have "text_update_system (elapsed_seconds inp) (timer_texts w) = Inr ?ts"
      using tx by (simp add: text_update_system_Inr list_all_iff)
    then show ?thesis using TextUpdate cs ci ts ba ob tx
      by (simp add: world_inv_def list_all_sections_update)
  next
    case ObstacleUpdate
    then show ?thesis using cs ci ts ba ob tx
      by (simp add: world_inv_def obstacle_update_system_def comp_def)
  next
    case CollisionUpdate
    then show ?thesis using cs ci ts ba ob tx
      by (simp add: world_inv_def collision_update_system_def car_inv_collision_loop)
  qed
qed

lemma run_systems_inv:
  "world_inv w \<Longrightarrow> \<exists>w'. run_systems inp ss w = Inr w' \<and> world_inv w'"
proof (induction ss arbitrary: w)
  case Nil
  then show ?case by simp
next
  case (Cons s ss)
  from Cons.prems obtain w1 where w1: "run_system inp s w = Inr w1" and i1: "world_inv w1"
    using run_system_inv by blast
  from Cons.IH [OF i1] w1 show ?case by simp
qed

lemma world_inv_setup_world: "world_inv setup_world"
  by (simp add: world_inv_def setup_world_def car_inv_setup_car) (simp add: setup_car_def)

lemma frame_inv:
  assumes "frame inp w w'" and "world_inv w"
  shows "world_inv w'"
proof -
  from assms(1) obtain order where "run_systems inp order w = Inr w'"
    by (auto elim: frameE)
  moreover from assms(2) obtain w'' where "run_systems inp order w = Inr w''" and "world_inv w''"
    using run_systems_inv by blast
  ultimately show ?thesis by simp
qed

lemma reachable_world_inv: "reachable w \<Longrightarrow> world_inv w"
proof (induction rule: reachable.induct)
  case start
  show ?case by (rule world_inv_setup_world)
next
  case (step w inp w')
  then show ?case by (blast intro: frame_inv)
qed

lemma world_inv_no_frame_panic: "world_inv w \<Longrightarrow> \<not> frame_panics inp w p"
proof
  assume inv: "world_inv w" and "frame_panics inp w p"
  then obtain order where "run_systems inp order w = Inl p"
    by (auto elim: frame_panicsE)
  moreover obtain w' where "run_systems inp order w = Inr w'"
    using run_systems_inv [OF inv] by blast
  ultimately show False by simp
qed

lemma world_inv_frame_exists: "world_inv w \<Longrightarrow> \<exists>w'. frame inp w w'"
  using run_systems_inv [of w inp update_systems] by (auto intro: frame.run)

section \<open>The car over one frame\<close>

lemma collision_loop_obst_cong:
  "map obst obs' = map obst obs \<Longrightarrow> collision_loop obs' c = collision_loop obs c"
proof -
  assume h: "map obst obs' = map obst obs"
  have "list_ex (near c) obs = list_ex (\<lambda>p. distance (pos c) (obstacle_pos p) < 100) (map obst obs)" for obs
    by (simp add: near_def list_ex_iff)
  then show ?thesis using h by (simp add: collision_loop_eq_spec collision_spec_def)
qed

lemma mset_two: "mset xs = {#a, b#} \<Longrightarrow> xs = [a, b] \<or> xs = [b, a]"
proof -
  assume h: "mset xs = {#a, b#}"
  then have "length xs = 2" by (metis size_mset size_add_mset size_empty One_nat_def numeral_2_eq_2)
  then obtain x y where xs: "xs = [x, y]"
    by (metis (no_types) One_nat_def Suc_1 length_0_conv length_Suc_conv)
  with h show ?thesis by (auto simp: add_eq_conv_ex)
qed
lemma run_system_cars:
  assumes inv: "world_inv w" and run: "run_system inp s w = Inr w'"
    and ob: "map obst obs = map obst (obstacles w)"
  shows "map car_comp (cars w') = map (car_effect (pressed_keys inp) obs s) (map car_comp (cars w))
         \<and> map obst (obstacles w') = map obst (obstacles w)"
proof -
  from inv obtain e where cs: "cars w = [e]" by (auto simp: world_inv_def)
  show ?thesis
  proof (cases s)
    case SpriteMovement
    with run cs show ?thesis by auto
  next
    case TextUpdate
    with run show ?thesis by (auto simp: bind_result_eq_Inr)
  next
    case ObstacleUpdate
    with run cs show ?thesis
      by (auto simp: bind_result_eq_Inr obstacle_update_system_def comp_def)
  next
    case CollisionUpdate
    have "collision_loop (obstacles w) (car_comp e) = collision_loop obs (car_comp e)"
      using ob by (rule collision_loop_obst_cong [symmetric])
    with CollisionUpdate run cs show ?thesis
      by (auto simp: bind_result_eq_Inr collision_update_system_def)
  qed
qed
lemma run_systems_cars:
  assumes "world_inv w" and "run_systems inp ss w = Inr w'" and "map obst obs = map obst (obstacles w)"
  shows "map car_comp (cars w') = map (fold (car_effect (pressed_keys inp) obs) ss) (map car_comp (cars w))"
  using assms
proof (induction ss arbitrary: w)
  case Nil
  then show ?case by simp
next
  case (Cons s ss)
  from Cons.prems(2) obtain w1 where r1: "run_system inp s w = Inr w1"
    and rs: "run_systems inp ss w1 = Inr w'"
    by (auto simp: bind_result_eq_Inr)
  have i1: "world_inv w1"
    using run_system_inv [OF Cons.prems(1), of inp s] r1 by auto
  have c1: "map car_comp (cars w1) = map (car_effect (pressed_keys inp) obs s) (map car_comp (cars w))"
    and o1: "map obst (obstacles w1) = map obst (obstacles w)"
    using run_system_cars [OF Cons.prems(1) r1 Cons.prems(3)] by simp_all
  have "map obst obs = map obst (obstacles w1)" using o1 Cons.prems(3) by simp
  with Cons.IH [OF i1 rs] c1 show ?case by simp
qed

lemma fold_car_effect_filter:
  "fold (car_effect k obs) ss = fold (car_effect k obs) (filter (\<lambda>s. s = SpriteMovement \<or> s = CollisionUpdate) ss)"
proof (induction ss)
  case Nil
  then show ?case by simp
next
  case (Cons s ss)
  then show ?case by (cases s) (simp_all add: fun_eq_iff)
qed

lemma frame_order_filter:
  assumes "mset order = mset update_systems"
  shows "filter (\<lambda>s. s = SpriteMovement \<or> s = CollisionUpdate) order = [SpriteMovement, CollisionUpdate] \<or>
         filter (\<lambda>s. s = SpriteMovement \<or> s = CollisionUpdate) order = [CollisionUpdate, SpriteMovement]"
proof -
  have "mset (filter (\<lambda>s. s = SpriteMovement \<or> s = CollisionUpdate) order)
        = filter_mset (\<lambda>s. s = SpriteMovement \<or> s = CollisionUpdate) (mset update_systems)"
    by (simp only: mset_filter assms)
  also have "\<dots> = {#SpriteMovement, CollisionUpdate#}"
    by (simp add: update_systems_def)
  finally show ?thesis by (rule mset_two)
qed

lemma frame_car_cases:
  assumes "world_inv w" and "frame inp w w'" and "cars w = [e]"
  shows "\<exists>e'. cars w' = [e'] \<and>
           (car_comp e' = collision_loop (obstacles w) (car_step (pressed_keys inp) (car_comp e)) \<or>
            car_comp e' = car_step (pressed_keys inp) (collision_loop (obstacles w) (car_comp e)))"
proof -
  let ?f = "fold (car_effect (pressed_keys inp) (obstacles w))"
  let ?P = "\<lambda>s. s = SpriteMovement \<or> s = CollisionUpdate"
  from assms(2) obtain order where mo: "mset order = mset update_systems"
    and run: "run_systems inp order w = Inr w'"
    by (auto elim: frameE)
  have "map car_comp (cars w') = [?f order (car_comp e)]"
    using run_systems_cars [OF assms(1) run refl] assms(3) by simp
  then obtain e' where cs': "cars w' = [e']" and ce': "car_comp e' = ?f order (car_comp e)"
    by (auto simp: map_eq_Cons_conv)
  have "?f order = ?f (filter ?P order)"
    by (rule fold_car_effect_filter)
  with ce' have "car_comp e' = ?f (filter ?P order) (car_comp e)"
    by simp
  with frame_order_filter [OF mo] cs' show ?thesis
    by auto
qed

section \<open>The timer system is independent of the others\<close>

lemma run_system_keeps_texts:
  "s \<noteq> TextUpdate \<Longrightarrow> run_system inp s w = Inr w' \<Longrightarrow> timer_texts w' = timer_texts w"
  by (cases s) (auto simp: bind_result_eq_Inr)

lemma run_system_set_texts:
  "s \<noteq> TextUpdate \<Longrightarrow>
   run_system inp s (w\<lparr>timer_texts := ts\<rparr>) = map_sum id (\<lambda>w'. w'\<lparr>timer_texts := ts\<rparr>) (run_system inp s w)"
proof (cases s)
  case ObstacleUpdate
  then show ?thesis by (cases "obstacle_update_system (cars w) (obstacles w)") simp_all
next
  case CollisionUpdate
  then show ?thesis by (cases "collision_update_system (cars w) (obstacles w)") simp_all
qed simp_all

section \<open>Two schedules from setup\<close>

lemma car_step_setup_car_pos_y: "vec2_y (pos (car_step {} setup_car)) = 1"
  by (simp add: car_step_def move_car_def accelerate_def steer_def clamp_speed_def setup_car_def
      vec_simps)

lemma run_order_sprite_first:
  "run_systems inp [SpriteMovement, TextUpdate, ObstacleUpdate, CollisionUpdate] setup_world = Inr w
   \<Longrightarrow> obstacles w = map (obstacle_update_entity (car_step (pressed_keys inp) setup_car)) setup_obstacles"
  by (auto simp: setup_world_def bind_result_eq_Inr obstacle_update_system_def
      collision_update_system_def text_update_entity_def)

lemma run_order_camera_first:
  "run_systems inp [ObstacleUpdate, SpriteMovement, TextUpdate, CollisionUpdate] setup_world = Inr w
   \<Longrightarrow> obstacles w = map (obstacle_update_entity setup_car) setup_obstacles"
  by (auto simp: setup_world_def bind_result_eq_Inr obstacle_update_system_def
      collision_update_system_def text_update_entity_def)

section \<open>Properties of the whole program\<close>

text \<open>
  C1 (safety): no frame of the program panics. In every world reachable from
  \<open>setup\<close>, whichever order the executor runs the four systems in, none of
  \<open>unwrap()\<close>, \<open>single_mut()\<close> or \<open>sections[0]\<close> panics, and a next frame exists.
\<close>

theorem reachable_no_panic:
  assumes "reachable w"
  shows "\<not> frame_panics inp w p \<and> (\<exists>w'. frame inp w w')"
  using reachable_world_inv [OF assms] world_inv_no_frame_panic world_inv_frame_exists by blast

theorem reachable_no_panic_witness:
  "reachable setup_world \<and>
   \<not> frame_panics \<lparr>pressed_keys = {KeyA}, elapsed_seconds = 2\<rparr> setup_world UnwrapNone \<and>
   (\<exists>w'. frame \<lparr>pressed_keys = {KeyA}, elapsed_seconds = 2\<rparr> setup_world w')"
  using reachable_no_panic [OF reachable.start] reachable.start by blast

text \<open>
  C2 (invariant): in every reachable world there is exactly one car, its speed is at most
  40 and its facing direction is a unit vector.
\<close>

theorem reachable_car_bounds:
  assumes "reachable w"
  shows "\<exists>e. cars w = [e] \<and> length_vec2 (vel (car_comp e)) \<le> 40 \<and>
             length_vec2 (direction (car_comp e)) = 1"
  using reachable_world_inv [OF assms] by (auto simp: world_inv_def car_inv_def)

theorem reachable_car_bounds_witness:
  "reachable setup_world \<and>
   (\<exists>e. cars setup_world = [e] \<and> length_vec2 (vel (car_comp e)) \<le> 40 \<and>
        length_vec2 (direction (car_comp e)) = 1)"
  using reachable_car_bounds [OF reachable.start] reachable.start by blast

text \<open>
  C25 (invariant): obstacles never move. In every reachable world the obstacles' logical
  positions are the ones \<open>setup_obstacles\<close> gave them; only their screen transforms
  change.
\<close>

theorem reachable_obstacles_fixed:
  assumes "reachable w"
  shows "map obst (obstacles w) = map obst setup_obstacles"
  using reachable_world_inv [OF assms] by (simp add: world_inv_def)

theorem reachable_obstacles_fixed_witness:
  "reachable setup_world \<and> map obst (obstacles setup_world) = map obst setup_obstacles"
  using reachable_obstacles_fixed [OF reachable.start] reachable.start by blast

text \<open>
  C7 (functional): within one frame the car's logical state gets the steering/motion
  step of \<open>sprite_movement\<close> and the obstacle scan of \<open>collision_update_system\<close>
  exactly once each, in one of the two orders the executor may choose; the camera-follow
  and timer systems do not touch it.
\<close>

theorem frame_car_update:
  assumes "reachable w" and "frame inp w w'"
  shows "\<exists>e e'. cars w = [e] \<and> cars w' = [e'] \<and>
           (car_comp e' = collision_loop (obstacles w) (car_step (pressed_keys inp) (car_comp e)) \<or>
            car_comp e' = car_step (pressed_keys inp) (collision_loop (obstacles w) (car_comp e)))"
proof -
  have inv: "world_inv w" using assms(1) by (rule reachable_world_inv)
  then obtain e where "cars w = [e]" by (auto simp: world_inv_def)
  with frame_car_cases [OF inv assms(2)] show ?thesis by blast
qed

theorem frame_car_update_witness:
  "\<exists>w'. reachable setup_world \<and> frame \<lparr>pressed_keys = {KeyD}, elapsed_seconds = 1\<rparr> setup_world w' \<and>
     (\<exists>e e'. cars setup_world = [e] \<and> cars w' = [e'] \<and>
       (car_comp e' = collision_loop (obstacles setup_world) (car_step {KeyD} (car_comp e)) \<or>
        car_comp e' = car_step {KeyD} (collision_loop (obstacles setup_world) (car_comp e))))"
proof -
  obtain w' where f: "frame \<lparr>pressed_keys = {KeyD}, elapsed_seconds = 1\<rparr> setup_world w'"
    using world_inv_frame_exists [OF world_inv_setup_world] by blast
  show ?thesis using frame_car_update [OF reachable.start f] reachable.start f by auto
qed

text \<open>
  C8 (safety): the result of a frame depends on the order the executor picks. Already on
  the first frame from \<open>setup\<close>, running \<open>sprite_movement\<close> before or after
  \<open>obstacle_update_system\<close> gives the obstacles different screen positions (the
  camera follows the car's old or new \<open>y\<close>), since \<open>main\<close> declares no order.
\<close>

theorem frame_order_matters:
  "\<exists>w1 w2. frame \<lparr>pressed_keys = {}, elapsed_seconds = 0\<rparr> setup_world w1 \<and>
            frame \<lparr>pressed_keys = {}, elapsed_seconds = 0\<rparr> setup_world w2 \<and>
            obstacles w1 \<noteq> obstacles w2"
proof -
  let ?inp = "\<lparr>pressed_keys = {}, elapsed_seconds = 0\<rparr> :: frame_input"
  let ?o1 = "[SpriteMovement, TextUpdate, ObstacleUpdate, CollisionUpdate]"
  let ?o2 = "[ObstacleUpdate, SpriteMovement, TextUpdate, CollisionUpdate]"
  obtain w1 where r1: "run_systems ?inp ?o1 setup_world = Inr w1"
    using run_systems_inv [OF world_inv_setup_world] by blast
  obtain w2 where r2: "run_systems ?inp ?o2 setup_world = Inr w2"
    using run_systems_inv [OF world_inv_setup_world] by blast
  have f1: "frame ?inp setup_world w1"
    by (rule frame.run [OF _ r1]) (simp add: update_systems_def)
  have f2: "frame ?inp setup_world w2"
    by (rule frame.run [OF _ r2]) (simp add: update_systems_def add_mset_commute)
  have len: "0 < length setup_obstacles"
    by (simp only: setup_obstacles_def spawn_rows_length) (simp add: lv1_turns_def)
  have "vec3_y (translation (obst_transform (obstacles w1 ! 0))) \<noteq>
        vec3_y (translation (obst_transform (obstacles w2 ! 0)))"
    using run_order_sprite_first [OF r1] run_order_camera_first [OF r2] len
    by (simp add: obstacle_update_entity_def car_step_setup_car_pos_y) (simp add: setup_car_def)
  then have "obstacles w1 \<noteq> obstacles w2" by metis
  with f1 f2 show ?thesis by blast
qed

text \<open>
  C27 (equivalence): \<open>text_update_system\<close> commutes with each of the other systems on
  every world satisfying the invariant (so on every reachable world): it only touches the
  timer texts, which no other system reads or writes, so running it before, after or
  alongside another system gives the same world.
\<close>

theorem text_update_commutes:
  assumes "world_inv w"
  shows "run_systems inp [TextUpdate, s] w = run_systems inp [s, TextUpdate] w"
proof (cases "s = TextUpdate")
  case True
  then show ?thesis by simp
next
  case False
  obtain ts where ts: "text_update_system (elapsed_seconds inp) (timer_texts w) = Inr ts"
    using run_system_inv [OF assms, of inp TextUpdate] by (auto simp: bind_result_eq_Inr)
  obtain w1 where w1: "run_system inp s w = Inr w1"
    using run_system_inv [OF assms, of inp s] by auto
  have "timer_texts w1 = timer_texts w" using run_system_keeps_texts [OF False w1] .
  then show ?thesis using ts w1 run_system_set_texts [OF False, where inp = inp and w = w and ts = ts] by simp
qed

theorem text_update_commutes_witness:
  "world_inv setup_world \<and>
   run_systems \<lparr>pressed_keys = {KeyA}, elapsed_seconds = 3\<rparr> [TextUpdate, CollisionUpdate] setup_world =
   run_systems \<lparr>pressed_keys = {KeyA}, elapsed_seconds = 3\<rparr> [CollisionUpdate, TextUpdate] setup_world"
  using text_update_commutes [OF world_inv_setup_world] world_inv_setup_world by blast

end
