(* ===== verification/Spec2Isabelle.thy ===== *)
theory Spec2Isabelle
  imports World
begin

text \<open>
  \<^bold>\<open>A verification model of the driving demo in \<open>src/src/main.rs\<close>.\<close>

  \<^bold>\<open>The program.\<close> A Bevy app (\<open>main\<close>, lines 5--14) runs \<open>setup\<close> once at
  start-up and then, every frame, the four \<open>Update\<close> systems \<open>sprite_movement\<close>,
  \<open>text_update_system\<close>, \<open>obstacle_update_system\<close> and
  \<open>collision_update_system\<close>, registered with no ordering between them. \<open>setup\<close>
  (89--128) spawns a camera, one car (\<open>Car\<close>, 27--34, with a sprite), 120 obstacles
  (\<open>setup_obstacles\<close>, 40--87, from the level table \<open>lv1_turns\<close>, 36--38) and a
  timer text. The systems share the car: \<open>sprite_movement\<close> (132--181) steers and
  moves it and writes its sprite transform; \<open>obstacle_update_system\<close> (189--195) reads
  the first car's \<open>y\<close> to place each obstacle on screen; \<open>collision_update_system\<close>
  (197--205) takes the single car and resets it when it is within 100 units of an
  obstacle; \<open>text_update_system\<close> (183--187) writes the elapsed time into the label.

  \<^bold>\<open>The theories.\<close>
  \<^item> \<open>Prelude\<close>: the panics (\<open>panic\<close>: \<open>unwrap\<close> of \<open>None\<close>, the two
    \<open>single_mut\<close> errors, \<open>sections[0]\<close> out of bounds), the result type
    \<open>panic + 'a\<close> with \<open>bind_result\<close>, and square-root comparison lemmas.
  \<^item> \<open>Glam\<close>: the glam/Bevy operations the program calls, as glam computes them:
    \<open>vec2\<close> with \<open>add_vec2\<close>, \<open>scale_vec2\<close>, \<open>length_vec2\<close>, \<open>normalize_vec2\<close>,
    \<open>distance\<close>, \<open>from_angle\<close>, \<open>rotate_vec2\<close>, \<open>to_angle\<close> (through \<open>atan2\<close>);
    \<open>vec3\<close>, \<open>quat\<close>, \<open>from_rotation_z\<close>, \<open>transform\<close>, \<open>from_xyz\<close>; image
    handles and \<open>load\<close>. Lemmas: rotation by \<open>from_angle\<close> keeps length, a rescaled
    normalised vector has the requested length, distance bounds the \<open>x\<close> gap.
  \<^item> \<open>Car\<close>: the \<open>car\<close> record and the car entity; \<open>sprite_movement\<close> split as the
    code is: \<open>steer\<close> (lines 141--156), \<open>accelerate\<close> with \<open>clamp_speed\<close>
    (158--164), \<open>move_car\<close> (166), \<open>sync_sprite\<close> (168--173), composed in
    \<open>car_step\<close> and \<open>sprite_movement_entity\<close>, mapped over the cars. Properties:
    speed bound and exact clamp, direction unchanged without keys, left/right turns by
    \<open>\<plusminus>0.001 * |vel|\<close>, no turn at rest, the car invariant \<open>car_inv\<close> preserved,
    the sprite written at height \<open>-200\<close> and unrotated when facing up.
  \<^item> \<open>Obstacles\<close>: \<open>obstacle\<close>, the spawning loops \<open>spawn_row\<close>/\<open>spawn_rows\<close> with
    the running \<open>ypos\<close>, \<open>setup_obstacles\<close>, and camera follow
    (\<open>obstacle_update_entity\<close>, \<open>obstacle_update_system\<close>). Properties: for
    any level table, \<open>2 * (sum of the counts)\<close> obstacles in pairs mirrored 800
    units apart; the \<open>y\<close> layout of \<open>lv1_turns\<close> (120 obstacles), the clear column around \<open>x = 100\<close>, the screen
    transform written, the panic without a car.
  \<^item> \<open>Collision\<close>: \<open>collision_check\<close>, the scan \<open>collision_loop\<close>,
    \<open>collision_update_system\<close>; the reference \<open>collision_spec\<close> and the
    refinement \<open>collision_loop = collision_spec\<close>, with idempotence and independence
    from the obstacle order as corollaries. Its \<open>single_mut\<close> panics are values of
    the model; that they never occur is shown in \<open>World\<close>.
  \<^item> \<open>Hud\<close>: \<open>format_time\<close> (Rust's \<open>Display\<close> of an integral \<open>f32\<close> as
    \<open>decimal\<close> digits), \<open>text_update_system\<close>; a parser \<open>parse_time\<close> and the
    round trip; the label written; the \<open>sections[0]\<close> panic.
  \<^item> \<open>World\<close>: the \<open>world\<close> (cars, obstacles, timer texts in spawn order),
    \<open>setup_world\<close>, \<open>run_system\<close>/\<open>run_systems\<close>, and the step relation
    \<open>frame\<close>: the four systems of \<open>update_systems\<close> in any permutation, as Bevy's
    executor may serialise them; \<open>frame_panics\<close>, \<open>frames\<close> (a run) and
    \<open>reachable\<close>. The invariant \<open>world_inv\<close> (one car, \<open>car_inv\<close>, the setup
    constants, fixed obstacle positions, every timer text with a section) holds in every
    reachable world by rule induction, so no frame panics. \<open>car_effect\<close> projects each
    system onto the car, giving the car's update over one frame (sprite step and
    collision scan, in one of two orders); \<open>text_update_system\<close> commutes with the
    other three; two concrete schedules from \<open>setup\<close> show the frame result
    depends on the order.
  \<^item> This theory: the end-to-end scenario of driving straight from \<open>setup\<close>, and
    the absence of collisions in the first 19 frames for any key presses.

  \<^bold>\<open>Modelling choices.\<close> \<open>f32\<close> is idealised as \<open>real\<close>: no rounding, no
  NaN, so the speed clamp yields exactly \<open>top_speed\<close> and rotations keep unit length
  exactly; \<open>sin\<close>, \<open>cos\<close>, \<open>sqrt\<close>, \<open>arctan\<close> are HOL's. \<open>normalize\<close> of the
  zero vector (NaN in glam) is never reached, since the clamp only normalises vectors
  longer than a non-negative top speed. Query iteration follows spawn order; the
  collision result is shown independent of it. No loop needs fuel: every loop is over a
  list or a count, by structural recursion.

  \<^bold>\<open>Not modelled.\<close> Rendering, windowing, the camera, text style and layout, asset
  loading beyond the handle a path names (\<open>DefaultPlugins\<close>): engine I/O that holds no
  state the systems read. \<open>Time\<close> enters only as the elapsed seconds each frame
  supplies; \<open>sprite_movement\<close> ignores it, as the code does (no \<open>delta_seconds\<close>).

  \<^bold>\<open>Plan.\<close> Modelled so far, in order of importance: the schedule and its safety
  (no panic, invariants of reachable worlds), the car's motion (bounds, steering,
  clamp), the collision scan against its reference specification, the level layout,
  the end-to-end straight run, the absence of collisions in the first 19 frames for any
  keys (speed grows by at most 1 per frame, sideways drift is at most the speed), the HUD
  label and its round trip, camera follow. Still to state: that a collision is reachable
  at all (a concrete steering run into an obstacle, which needs numeric bounds on
  \<open>sin\<close> and \<open>cos\<close>); a sharper drift bound from the steering rate
  \<open>0.001 * |vel|\<close>; the idempotence of camera follow; and the sprite rotation for
  every facing direction (\<open>to_angle\<close> inverting \<open>from_angle\<close> on
  \<open>(-\<pi>, \<pi>]\<close>).
\<close>

section \<open>Driving straight from setup\<close>

lemma car_step_straight:
  assumes "0 \<le> v" and "v \<le> 40"
  shows "car_step {} (setup_car\<lparr>pos := Vec2 100 y, vel := Vec2 0 v\<rparr>) =
           setup_car\<lparr>pos := Vec2 100 (y + min (v + 1) 40), vel := Vec2 0 (min (v + 1) 40)\<rparr>"
proof (cases "40 < v + 1")
  case True
  have "scale_vec2 (normalize_vec2 (Vec2 0 (v + 1))) 40 = Vec2 0 40"
    using assms by (simp add: normalize_vec2_def scale_vec2_def length_vec2_Vec2)
  then show ?thesis using assms True
    by (simp add: car_step_def move_car_def accelerate_def steer_def clamp_speed_def setup_car_def
        vec_simps)
next
  case False
  then show ?thesis using assms
    by (simp add: car_step_def move_car_def accelerate_def steer_def clamp_speed_def setup_car_def
        vec_simps)
qed

lemma car_step_iterate:
  "(car_step {} ^^ n) setup_car =
     setup_car\<lparr>pos := Vec2 100 (\<Sum>k = 1..n. min (real k) 40), vel := Vec2 0 (min (real n) 40)\<rparr>"
proof (induction n)
  case 0
  then show ?case by (simp add: setup_car_def)
next
  case (Suc n)
  have "min (min (real n) 40 + 1) 40 = min (real (Suc n)) 40" by simp
  then show ?case
    using Suc.IH car_step_straight [of "min (real n) 40" "\<Sum>k = 1..n. min (real k) 40"]
    by simp
qed

lemma sum_min_40: "n \<le> 40 \<Longrightarrow> (\<Sum>k = 1..n. min (real k) 40) = real n * (real n + 1) / 2"
proof (induction n)
  case 0
  then show ?case by simp
next
  case (Suc n)
  then show ?case by (simp add: algebra_simps add_divide_distrib)
qed

text \<open>A car less than 200 units in \<open>x\<close> from the spawn column is clear of every obstacle.\<close>

lemma collision_loop_near_column:
  assumes "map obst obs = map obst setup_obstacles" and "\<bar>vec2_x (pos c) - 100\<bar> < 200"
  shows "collision_loop obs c = c"
proof -
  have "\<not> near c ob" if ob: "ob \<in> set setup_obstacles" for ob
  proof
    assume "near c ob"
    then have "distance (pos c) (obstacle_pos (obst ob)) < 100" by (simp add: near_def)
    moreover have "\<bar>vec2_x (pos c) - vec2_x (obstacle_pos (obst ob))\<bar> \<le> distance (pos c) (obstacle_pos (obst ob))"
      by (rule distance_ge_x_gap)
    moreover have "vec2_x (obstacle_pos (obst ob)) \<in> {-400, 400, -350, 450, -300, 500}"
      using ob by (rule setup_obstacles_x_values)
    ultimately show False using assms(2) by auto
  qed
  then have "collision_loop setup_obstacles c = c"
    by (simp add: collision_loop_no_near list_ex_iff)
  with collision_loop_obst_cong [OF assms(1)] show ?thesis by simp
qed

lemma frames_straight:
  assumes "frames ins w w'" and "world_inv w" and "\<forall>i \<in> set ins. pressed_keys i = {}"
    and "cars w = [e]" and "car_comp e = (car_step {} ^^ m) setup_car"
  shows "\<exists>e'. cars w' = [e'] \<and> car_comp e' = (car_step {} ^^ (m + length ins)) setup_car"
  using assms
proof (induction arbitrary: e m rule: frames.induct)
  case (Nil w)
  then show ?case by simp
next
  case (Cons inp w w1 inps w2)
  have ob: "map obst (obstacles w) = map obst setup_obstacles"
    using Cons.prems(1) by (simp add: world_inv_def)
  have col: "collision_loop (obstacles w) ((car_step {} ^^ n) setup_car) = (car_step {} ^^ n) setup_car" for n
    using ob by (rule collision_loop_near_column) (simp add: car_step_iterate)
  have keys: "pressed_keys inp = {}" using Cons.prems(2) by simp
  obtain e1 where c1: "cars w1 = [e1]"
    and u1: "car_comp e1 = collision_loop (obstacles w) (car_step {} (car_comp e)) \<or>
             car_comp e1 = car_step {} (collision_loop (obstacles w) (car_comp e))"
    using frame_car_cases [OF Cons.prems(1) Cons.hyps(1) Cons.prems(3)] keys by auto
  have "car_comp e1 = (car_step {} ^^ Suc m) setup_car"
    using u1 col [of m] col [of "Suc m"] Cons.prems(4) by auto
  moreover have "world_inv w1" using Cons.hyps(1) Cons.prems(1) by (rule frame_inv)
  ultimately show ?case
    using Cons.IH [of e1 "Suc m"] Cons.prems(2) c1 by simp
qed

lemma frames_exist: "world_inv w \<Longrightarrow> \<exists>w'. frames ins w w'"
proof (induction ins arbitrary: w)
  case Nil
  then show ?case by (blast intro: frames.Nil)
next
  case (Cons inp ins)
  obtain w1 where f: "frame inp w w1" using world_inv_frame_exists [OF Cons.prems] by blast
  moreover obtain w2 where "frames ins w1 w2"
    using Cons.IH [OF frame_inv [OF f Cons.prems]] by blast
  ultimately show ?case by (blast intro: frames.Cons)
qed

text \<open>
  C6 (functional): the end-to-end scenario. From \<open>setup\<close>, after any run of frames in
  which no key is held, and whatever order each frame runs the systems in, there is one
  car; it still faces \<open>(0, 1)\<close>, its velocity is \<open>(0, min n 40)\<close> after \<open>n\<close> frames
  (growing by 1 per frame until the cap of 40) and it has advanced to
  \<open>y = \<Sum>k=1..n. min k 40\<close> in the column \<open>x = 100\<close>, never reset by a collision.
\<close>

theorem straight_drive:
  assumes "frames ins setup_world w" and "\<forall>i \<in> set ins. pressed_keys i = {}"
  shows "\<exists>e. cars w = [e] \<and> direction (car_comp e) = Vec2 0 1 \<and>
             vel (car_comp e) = Vec2 0 (min (real (length ins)) 40) \<and>
             pos (car_comp e) = Vec2 100 (\<Sum>k = 1..length ins. min (real k) 40)"
proof -
  let ?e0 = "\<lparr>car_comp = setup_car, car_transform = scaled_at 100 0 0 0.2,
               car_texture = load ''racecar_center.png''\<rparr>"
  have c0: "cars setup_world = [?e0]" by (simp add: setup_world_def)
  have "car_comp ?e0 = (car_step {} ^^ 0) setup_car" by simp
  then have "\<exists>e'. cars w = [e'] \<and> car_comp e' = (car_step {} ^^ (0 + length ins)) setup_car"
    by (rule frames_straight [OF assms(1) world_inv_setup_world assms(2) c0])
  moreover have "direction setup_car = Vec2 0 1" by (simp add: setup_car_def)
  ultimately show ?thesis by (auto simp: car_step_iterate)
qed

theorem straight_drive_witness:
  "\<exists>w. frames (replicate 40 \<lparr>pressed_keys = {}, elapsed_seconds = 0\<rparr>) setup_world w \<and>
       (\<forall>i \<in> set (replicate 40 \<lparr>pressed_keys = {}, elapsed_seconds = 0\<rparr>). pressed_keys i = {}) \<and>
       (\<exists>e. cars w = [e] \<and> direction (car_comp e) = Vec2 0 1 \<and>
            vel (car_comp e) = Vec2 0 40 \<and> pos (car_comp e) = Vec2 100 820)"
proof -
  obtain w where f: "frames (replicate 40 \<lparr>pressed_keys = {}, elapsed_seconds = 0\<rparr>) setup_world w"
    using frames_exist [OF world_inv_setup_world] by blast
  have k: "\<forall>i \<in> set (replicate 40 \<lparr>pressed_keys = {}, elapsed_seconds = 0\<rparr>). pressed_keys i = {}"
    by simp
  have s: "(\<Sum>k = 1..40. min (real k) 40) = 820"
    using sum_min_40 [of 40] by simp
  show ?thesis using f k straight_drive [OF f k] s by auto
qed

section \<open>No crash in the first frames\<close>

text \<open>
  The speed grows by at most \<open>base_acc = 1\<close> per frame and the car drifts sideways by at
  most its speed, so after \<open>n\<close> frames it is within \<open>n (n + 1) / 2\<close> of the spawn
  column; the obstacles are 300 away from it and the collision radius is 100.
\<close>

lemma triangle_le_190: "n \<le> 19 \<Longrightarrow> real n * (real n + 1) / 2 \<le> 190"
proof -
  assume "n \<le> 19"
  then have "real n \<le> 19" and "real n + 1 \<le> 20" by simp_all
  then have "real n * (real n + 1) \<le> 19 * 20" by (intro mult_mono) simp_all
  then show ?thesis by simp
qed

lemma frames_no_reset_early:
  assumes "frames ins w w'" and "world_inv w" and "cars w = [e]"
    and "length_vec2 (vel (car_comp e)) \<le> real n"
    and "\<bar>vec2_x (pos (car_comp e)) - 100\<bar> \<le> real n * (real n + 1) / 2"
    and "n + length ins \<le> 19"
  shows "\<exists>e'. cars w' = [e'] \<and> car_comp e' = fold (\<lambda>i. car_step (pressed_keys i)) ins (car_comp e)"
  using assms
proof (induction arbitrary: e n rule: frames.induct)
  case (Nil w)
  then show ?case by simp
next
  case (Cons inp w w1 inps w2)
  let ?k = "pressed_keys inp"
  let ?c = "car_comp e"
  from Cons.prems(1,2) have ci: "car_inv ?c" and ba: "base_acc ?c = 1"
    and ob: "map obst (obstacles w) = map obst setup_obstacles"
    by (auto simp: world_inv_def)
  have n18: "n + 1 \<le> 19" using Cons.prems(5) by simp
  have sp: "length_vec2 (vel (car_step ?k ?c)) \<le> real (Suc n)"
    using car_step_speed_growth [OF ci, of ?k] ba Cons.prems(3) by simp
  have x1: "\<bar>vec2_x (pos (car_step ?k ?c)) - 100\<bar> \<le> real (Suc n) * (real (Suc n) + 1) / 2"
  proof -
    have "\<bar>vec2_x (pos (car_step ?k ?c)) - 100\<bar>
          \<le> \<bar>vec2_x (pos (car_step ?k ?c)) - vec2_x (pos ?c)\<bar> + \<bar>vec2_x (pos ?c) - 100\<bar>"
      by linarith
    also have "\<dots> \<le> real (Suc n) + real n * (real n + 1) / 2"
      using car_step_x_drift [of ?k ?c] sp Cons.prems(4) by linarith
    also have "\<dots> = real (Suc n) * (real (Suc n) + 1) / 2"
      by (simp add: field_simps)
    finally show ?thesis .
  qed
  have col0: "collision_loop (obstacles w) ?c = ?c"
    using ob Cons.prems(4) triangle_le_190 [of n] n18
    by (intro collision_loop_near_column) simp_all
  have col1: "collision_loop (obstacles w) (car_step ?k ?c) = car_step ?k ?c"
    using ob x1 triangle_le_190 [of "Suc n"] n18
    by (intro collision_loop_near_column) simp_all
  obtain e1 where c1: "cars w1 = [e1]" and u1: "car_comp e1 = car_step ?k ?c"
    using frame_car_cases [OF Cons.prems(1) Cons.hyps(1) Cons.prems(2)] col0 col1 by auto
  have i1: "world_inv w1" using Cons.hyps(1) Cons.prems(1) by (rule frame_inv)
  have "\<exists>e'. cars w2 = [e'] \<and> car_comp e' = fold (\<lambda>i. car_step (pressed_keys i)) inps (car_comp e1)"
    using Cons.IH [OF i1 c1, of "Suc n"] u1 sp x1 Cons.prems(5) by simp
  then show ?case using u1 by simp
qed

text \<open>
  C9 (safety): whatever keys the player holds, the car is never reset by a collision in
  the first 19 frames: its state is exactly \<open>sprite_movement\<close>'s steps applied in turn.
\<close>

theorem no_reset_in_first_19_frames:
  assumes "frames ins setup_world w" and "length ins \<le> 19"
  shows "\<exists>e. cars w = [e] \<and> car_comp e = fold (\<lambda>i. car_step (pressed_keys i)) ins setup_car"
proof -
  let ?e0 = "\<lparr>car_comp = setup_car, car_transform = scaled_at 100 0 0 0.2,
               car_texture = load ''racecar_center.png''\<rparr>"
  have c0: "cars setup_world = [?e0]" by (simp add: setup_world_def)
  have "\<exists>e'. cars w = [e'] \<and> car_comp e' = fold (\<lambda>i. car_step (pressed_keys i)) ins (car_comp ?e0)"
    using assms by (intro frames_no_reset_early [OF assms(1) world_inv_setup_world c0, of 0])
      (simp_all add: setup_car_def vec_simps)
  then show ?thesis by simp
qed

theorem no_reset_in_first_19_frames_witness:
  "\<exists>w. frames (replicate 19 \<lparr>pressed_keys = {KeyA}, elapsed_seconds = 0\<rparr>) setup_world w \<and>
       length (replicate 19 \<lparr>pressed_keys = {KeyA}, elapsed_seconds = 0\<rparr>) \<le> 19 \<and>
       (\<exists>e. cars w = [e] \<and>
            car_comp e = fold (\<lambda>i. car_step (pressed_keys i))
              (replicate 19 \<lparr>pressed_keys = {KeyA}, elapsed_seconds = 0\<rparr>) setup_car)"
proof -
  obtain w where f: "frames (replicate 19 \<lparr>pressed_keys = {KeyA}, elapsed_seconds = 0\<rparr>) setup_world w"
    using frames_exist [OF world_inv_setup_world] by blast
  have l: "length (replicate 19 \<lparr>pressed_keys = {KeyA}, elapsed_seconds = 0\<rparr>) \<le> 19" by simp
  show ?thesis using f l no_reset_in_first_19_frames [OF f l] by blast
qed

end
